theory Spec2Isabelle
  imports Complex_Main "HOL-Library.While_Combinator"
begin

section \<open>Data model\<close>

text \<open>
  A sample is a flattened array of reals; labels are Python integers. The classifier
  (\<open>self._estimator\<close>) is a parameter: it maps one sample to its row of class scores.
  Arithmetic is over the reals, so rounding, \<open>nan\<close> and \<open>inf\<close> of the numpy floats are
  outside the model; all arrays of one run have the length of the input sample (numpy's
  broadcasting and shape errors are not modelled).
\<close>

type_synonym sample = "real list"

type_synonym label = int

type_synonym estimator = "sample \<Rightarrow> real list"

datatype norm_order = L2 | Linf

datatype error =
    ZeroSizeReduction
  | NoneNotSubscriptable
  | MissingTargetLabels
  | AmbiguousTruthValue
  | IndexOutOfRange
  | InvalidConfig

record config =
  targeted :: bool
  norm_cfg :: norm_order
  max_iter :: int
  max_eval :: int
  init_eval :: int
  init_size :: int
  input_shape :: "nat list"
  apply_softmax :: bool
  theta :: real

section \<open>Construction and parameter validation\<close>

text \<open>
  \<open>_check_params\<close> and \<open>__init__\<close>: the checks on the counts, and the binary-search
  threshold \<open>theta\<close> derived from the norm and the number of elements of the input shape
  (for an input shape without elements numpy divides by zero and yields \<open>inf\<close>, where
  HOL's division yields 0).
\<close>

definition check_params :: "config \<Rightarrow> error + unit" where
  "check_params cfg =
     (if max_iter cfg < 0 then Inl InvalidConfig
      else if max_eval cfg \<le> 0 then Inl InvalidConfig
      else if init_eval cfg \<le> 0 then Inl InvalidConfig
      else if init_eval cfg > max_eval cfg then Inl InvalidConfig
      else if init_size cfg \<le> 0 then Inl InvalidConfig
      else Inr ())"

definition hop_skip_jump ::
  "bool \<Rightarrow> nat list \<Rightarrow> bool \<Rightarrow> norm_order \<Rightarrow> int \<Rightarrow> int \<Rightarrow> int \<Rightarrow> int \<Rightarrow> error + config" where
  "hop_skip_jump softmax_flag shape targeted_flag nrm iterations evals first_evals trials =
     (let cfg = \<lparr> targeted = targeted_flag, norm_cfg = nrm, max_iter = iterations,
                   max_eval = evals, init_eval = first_evals, init_size = trials,
                   input_shape = shape, apply_softmax = softmax_flag,
                   theta = (if nrm = L2 then (1 / 100) / sqrt (real (prod_list shape))
                            else (1 / 100) / real (prod_list shape)) \<rparr>
      in case check_params cfg of Inl e \<Rightarrow> Inl e | Inr u \<Rightarrow> Inr cfg)"

section \<open>Array helpers (numpy)\<close>

definition vadd :: "sample \<Rightarrow> sample \<Rightarrow> sample" where
  "vadd xs ys = map2 (+) xs ys"

definition vsub :: "sample \<Rightarrow> sample \<Rightarrow> sample" where
  "vsub xs ys = map2 (-) xs ys"

definition vmul :: "sample \<Rightarrow> sample \<Rightarrow> sample" where
  "vmul xs ys = map2 (*) xs ys"

definition scale :: "real \<Rightarrow> sample \<Rightarrow> sample" where
  "scale a xs = map (\<lambda>v. a * v) xs"

definition clip :: "sample \<Rightarrow> real \<Rightarrow> real \<Rightarrow> sample" where
  "clip xs lo hi = map (\<lambda>v. min (max v lo) hi) xs"

definition clip_box :: "sample \<Rightarrow> sample \<Rightarrow> sample \<Rightarrow> sample" where
  "clip_box xs los his = map (\<lambda>(v, lo, hi). min (max v lo) hi) (zip xs (zip los his))"

text \<open>\<open>np.max\<close> and \<open>np.min\<close> of a flattened array; on an empty array numpy raises, which
  \<open>generate\<close> below turns into an error before any other use.\<close>

fun max_of :: "real list \<Rightarrow> real" where
  "max_of [] = 0"
| "max_of (v # vs) = fold max vs v"

fun min_of :: "real list \<Rightarrow> real" where
  "min_of [] = 0"
| "min_of (v # vs) = fold min vs v"

definition max_abs_diff :: "sample \<Rightarrow> sample \<Rightarrow> real" where
  "max_abs_diff xs ys = max_of (map abs (vsub xs ys))"

definition l2_norm :: "sample \<Rightarrow> real" where
  "l2_norm xs = sqrt (sum_list (map (\<lambda>v. v * v) xs))"

definition mean :: "real list \<Rightarrow> real" where
  "mean xs = sum_list xs / real (length xs)"

section \<open>The oracle\<close>

text \<open>\<open>torch.argmax\<close>: the index of the first maximal score.\<close>

fun argmax_aux :: "real list \<Rightarrow> nat \<Rightarrow> nat \<Rightarrow> real \<Rightarrow> nat" where
  "argmax_aux [] i best bv = best"
| "argmax_aux (v # vs) i best bv =
     (if bv < v then argmax_aux vs (Suc i) i v else argmax_aux vs (Suc i) best bv)"

definition argmax :: "real list \<Rightarrow> label" where
  "argmax xs = (case xs of [] \<Rightarrow> 0 | v # vs \<Rightarrow> int (argmax_aux vs 1 0 v))"

definition softmax :: "real list \<Rightarrow> real list" where
  "softmax xs = map (\<lambda>v. exp v / sum_list (map exp xs)) xs"

text \<open>The predicted class as \<open>generate\<close> and \<open>_adversarial_satisfactory\<close> compute it
  (softmax when configured, then argmax), and as \<open>_init_sample\<close> computes it (argmax of
  the raw scores).\<close>

definition predict :: "config \<Rightarrow> estimator \<Rightarrow> sample \<Rightarrow> label" where
  "predict cfg est s = argmax (if apply_softmax cfg then softmax (est s) else est s)"

definition predict_raw :: "estimator \<Rightarrow> sample \<Rightarrow> label" where
  "predict_raw est s = argmax (est s)"

definition adversarial_satisfactory ::
  "config \<Rightarrow> estimator \<Rightarrow> sample \<Rightarrow> label \<Rightarrow> real \<Rightarrow> real \<Rightarrow> bool" where
  "adversarial_satisfactory cfg est s target clip_min clip_max =
     (let preds = predict cfg est (clip s clip_min clip_max)
      in if targeted cfg then preds = target else preds \<noteq> target)"

section \<open>Binary-search projector\<close>

definition interpolate :: "sample \<Rightarrow> sample \<Rightarrow> real \<Rightarrow> norm_order \<Rightarrow> sample" where
  "interpolate current_sample original_sample alpha nrm =
     (if nrm = L2 then vadd (scale (1 - alpha) original_sample) (scale alpha current_sample)
      else clip_box current_sample
             (map (\<lambda>v. v - alpha) original_sample) (map (\<lambda>v. v + alpha) original_sample))"

text \<open>The \<open>while\<close> loop of \<open>_binary_search\<close>; it returns the final upper bound, and
  \<open>None\<close> stands for a loop that never ends.\<close>

partial_function (option) binary_search_loop ::
  "config \<Rightarrow> estimator \<Rightarrow> sample \<Rightarrow> sample \<Rightarrow> label \<Rightarrow> norm_order \<Rightarrow> real \<Rightarrow> real
     \<Rightarrow> real \<Rightarrow> real \<Rightarrow> real \<Rightarrow> real option" where
  "binary_search_loop cfg est current_sample original_sample target nrm clip_min clip_max
       threshold lower_bound upper_bound =
     (if upper_bound - lower_bound > threshold then
        (let alpha = (upper_bound + lower_bound) / 2;
             interpolated_sample = interpolate current_sample original_sample alpha nrm;
             satisfied = adversarial_satisfactory cfg est interpolated_sample target
                           clip_min clip_max
         in binary_search_loop cfg est current_sample original_sample target nrm
              clip_min clip_max threshold
              (if \<not> satisfied then alpha else lower_bound)
              (if satisfied then alpha else upper_bound))
      else Some upper_bound)"

definition binary_search ::
  "config \<Rightarrow> estimator \<Rightarrow> sample \<Rightarrow> sample \<Rightarrow> label \<Rightarrow> norm_order \<Rightarrow> real \<Rightarrow> real
     \<Rightarrow> real option \<Rightarrow> sample option" where
  "binary_search cfg est current_sample original_sample target nrm clip_min clip_max threshold =
     (let (upper_bound, lower_bound, thr) =
            (if nrm = L2 then
               (1, 0, case threshold of None \<Rightarrow> theta cfg | Some t \<Rightarrow> t)
             else
               (let ub = max_abs_diff original_sample current_sample
                in (ub, 0, case threshold of None \<Rightarrow> min (ub * theta cfg) (theta cfg)
                                            | Some t \<Rightarrow> t)))
      in map_option (\<lambda>ub. interpolate current_sample original_sample ub nrm)
           (binary_search_loop cfg est current_sample original_sample target nrm
              clip_min clip_max thr lower_bound upper_bound))"

text \<open>The projector in the words of the specification: the interpolation formula of each
  norm, and a bisection on the pair of bounds, iterated while the gap exceeds the threshold.\<close>

definition result_spec :: "sample \<Rightarrow> sample \<Rightarrow> real \<Rightarrow> norm_order \<Rightarrow> sample" where
  "result_spec current original alpha nrm =
     (case nrm of
        L2 \<Rightarrow> map2 (\<lambda>orig cur. (1 - alpha) * orig + alpha * cur) original current
      | Linf \<Rightarrow> map2 (\<lambda>orig cur. min (max cur (orig - alpha)) (orig + alpha)) original current)"

definition bisect_step :: "(real \<Rightarrow> bool) \<Rightarrow> real \<times> real \<Rightarrow> real \<times> real" where
  "bisect_step adv = (\<lambda>(lower, upper).
     let alpha = (lower + upper) / 2 in if adv alpha then (lower, alpha) else (alpha, upper))"

definition projector_spec ::
  "config \<Rightarrow> estimator \<Rightarrow> sample \<Rightarrow> sample \<Rightarrow> label \<Rightarrow> norm_order \<Rightarrow> real \<Rightarrow> real
     \<Rightarrow> sample option" where
  "projector_spec cfg est current original target nrm clip_min clip_max =
     (let result = (\<lambda>alpha. result_spec current original alpha nrm);
          adv = (\<lambda>alpha. adversarial_satisfactory cfg est (result alpha) target clip_min clip_max);
          upper0 = (case nrm of L2 \<Rightarrow> 1 | Linf \<Rightarrow> max_abs_diff original current);
          thr = (case nrm of L2 \<Rightarrow> theta cfg | Linf \<Rightarrow> min (upper0 * theta cfg) (theta cfg))
      in map_option (\<lambda>(lower, upper). result upper)
           (while_option (\<lambda>(lower, upper). upper - lower > thr) (bisect_step adv) (0, upper0)))"

section \<open>Randomness\<close>

text \<open>
  The source draws from unseeded generators. The model takes the drawn numbers as an
  input: \<open>uniform01 k j\<close> is the unit variate behind coordinate \<open>j\<close> of the \<open>k\<close>-th call of
  \<open>nprd.uniform\<close> in \<open>_init_sample\<close> (numpy computes \<open>low + (high - low) * u\<close>), and
  \<open>noise it i j\<close> is coordinate \<open>j\<close> of probe \<open>i\<close> drawn by \<open>_compute_update\<close> in the
  iteration whose counter is \<open>it\<close>.
\<close>

record rng =
  uniform01 :: "nat \<Rightarrow> nat \<Rightarrow> real"
  noise :: "nat \<Rightarrow> nat \<Rightarrow> nat \<Rightarrow> real"

definition uniform_draw :: "rng \<Rightarrow> nat \<Rightarrow> real \<Rightarrow> real \<Rightarrow> nat \<Rightarrow> sample" where
  "uniform_draw rnd k low high n = map (\<lambda>j. low + (high - low) * uniform01 rnd k j) [0..<n]"

definition apply_mask :: "sample \<Rightarrow> sample \<Rightarrow> sample \<Rightarrow> sample" where
  "apply_mask candidate x msk = vadd (vmul candidate msk) (vmul x (map (\<lambda>m. 1 - m) msk))"

section \<open>Direction estimator\<close>

definition compute_delta :: "config \<Rightarrow> nat \<Rightarrow> sample \<Rightarrow> sample \<Rightarrow> real \<Rightarrow> real \<Rightarrow> real" where
  "compute_delta cfg curr_iter current_sample original_sample clip_min clip_max =
     (if curr_iter = 0 then (1 / 10) * (clip_max - clip_min)
      else if norm_cfg cfg = L2 then
        sqrt (real (prod_list (input_shape cfg))) * theta cfg
          * l2_norm (vsub original_sample current_sample)
      else
        real (prod_list (input_shape cfg)) * theta cfg
          * max_abs_diff original_sample current_sample)"

text \<open>\<open>np.mean(rows, axis=0)\<close>; with no row at all numpy yields \<open>nan\<close>, which a validated
  configuration (\<open>init_eval > 0\<close>, \<open>max_eval > 0\<close>) never reaches.\<close>

definition mean_axis0 :: "sample list \<Rightarrow> sample" where
  "mean_axis0 rows =
     (case rows of [] \<Rightarrow> []
      | r # rs \<Rightarrow> map (\<lambda>v. v / real (length rows)) (fold (\<lambda>row acc. vadd acc row) rs r))"

definition compute_update ::
  "config \<Rightarrow> estimator \<Rightarrow> (nat \<Rightarrow> nat \<Rightarrow> real) \<Rightarrow> sample \<Rightarrow> int \<Rightarrow> real \<Rightarrow> label
     \<Rightarrow> sample option \<Rightarrow> real \<Rightarrow> real \<Rightarrow> sample" where
  "compute_update cfg est draw current_sample num_eval delta target msk clip_min clip_max =
     (let rnd_noise0 = map (\<lambda>i. map (draw i) [0..<prod_list (input_shape cfg)])
                         [0..<nat num_eval];
          rnd_noise1 = (case msk of None \<Rightarrow> rnd_noise0
                        | Some m \<Rightarrow> map (\<lambda>row. vmul row m) rnd_noise0);
          rnd_noise2 = map (\<lambda>row. map (\<lambda>v. v / sqrt (sum_list (map (\<lambda>w. w ^ 2) row))) row)
                         rnd_noise1;
          eval_samples = map (\<lambda>row. clip (vadd current_sample (scale delta row))
                                      clip_min clip_max) rnd_noise2;
          rnd_noise = map (\<lambda>e. map (\<lambda>v. v / delta) (vsub e current_sample)) eval_samples;
          satisfied = map (\<lambda>e. adversarial_satisfactory cfg est e target clip_min clip_max)
                        eval_samples;
          f_val = map (\<lambda>b. 2 * (if b then 1 else 0) - 1) satisfied;
          grad = (if mean f_val = 1 then mean_axis0 rnd_noise
                  else if mean f_val = - 1 then map uminus (mean_axis0 rnd_noise)
                  else mean_axis0 (map2 scale (map (\<lambda>f. f - mean f_val) f_val) rnd_noise))
      in if norm_cfg cfg = L2 then map (\<lambda>g. g / l2_norm grad) grad else map sgn grad)"

text \<open>The direction estimator in the words of the specification, from the probes
  actually applied and the per-probe adversarial indicators.\<close>

definition raw_direction_spec :: "bool list \<Rightarrow> sample list \<Rightarrow> sample" where
  "raw_direction_spec indicators perturbations =
     (let signs = map (\<lambda>b. if b then 1 else - 1) indicators
      in if list_all (\<lambda>b. b) indicators then mean_axis0 perturbations
         else if list_all (\<lambda>b. \<not> b) indicators then map uminus (mean_axis0 perturbations)
         else mean_axis0 (map2 (\<lambda>s p. scale (s - mean signs) p) signs perturbations))"

definition direction_spec :: "norm_order \<Rightarrow> bool list \<Rightarrow> sample list \<Rightarrow> sample" where
  "direction_spec nrm indicators perturbations =
     (let raw = raw_direction_spec indicators perturbations
      in case nrm of L2 \<Rightarrow> map (\<lambda>g. g / l2_norm raw) raw | Linf \<Rightarrow> map sgn raw)"

text \<open>The probes of one call of \<open>_compute_update\<close>, each with the perturbation actually
  applied: the mask, the normalisation to unit length, the scaling by \<open>delta\<close>, the
  clipping, and the applied perturbation recomputed from the clipped probe.\<close>

definition applied_perturbations ::
  "config \<Rightarrow> (nat \<Rightarrow> nat \<Rightarrow> real) \<Rightarrow> sample \<Rightarrow> int \<Rightarrow> real \<Rightarrow> sample option \<Rightarrow> real \<Rightarrow> real
     \<Rightarrow> (sample \<times> sample) list" where
  "applied_perturbations cfg draw current_sample num_eval delta msk clip_min clip_max =
     map (\<lambda>i. let row0 = map (draw i) [0..<prod_list (input_shape cfg)];
                   row1 = (case msk of None \<Rightarrow> row0 | Some m \<Rightarrow> vmul row0 m);
                   row2 = map (\<lambda>v. v / sqrt (sum_list (map (\<lambda>w. w ^ 2) row1))) row1;
                   probe = clip (vadd current_sample (scale delta row2)) clip_min clip_max
               in (probe, map (\<lambda>v. v / delta) (vsub probe current_sample)))
       [0..<nat num_eval]"

section \<open>Step-size search and attack driver\<close>

text \<open>The \<open>while not success\<close> loop of \<open>_attack\<close>: it returns the accepted step size and
  candidate; \<open>None\<close> stands for a loop that never ends.\<close>

partial_function (option) step_size_search ::
  "config \<Rightarrow> estimator \<Rightarrow> sample \<Rightarrow> sample \<Rightarrow> label \<Rightarrow> real \<Rightarrow> real \<Rightarrow> real
     \<Rightarrow> (real \<times> sample) option" where
  "step_size_search cfg est current_sample update target clip_min clip_max epsilon =
     (let epsilon' = epsilon / 2;
          potential_sample = vadd current_sample (scale epsilon' update);
          success = adversarial_satisfactory cfg est potential_sample target clip_min clip_max
      in if success then Some (epsilon', potential_sample)
         else step_size_search cfg est current_sample update target clip_min clip_max epsilon')"

text \<open>Python's \<open>int(r)\<close> truncates towards zero.\<close>

definition trunc :: "real \<Rightarrow> int" where
  "trunc r = (if 0 \<le> r then \<lfloor>r\<rfloor> else \<lceil>r\<rceil>)"

definition attack_iteration ::
  "config \<Rightarrow> estimator \<Rightarrow> rng \<Rightarrow> sample \<Rightarrow> label \<Rightarrow> sample option \<Rightarrow> real \<Rightarrow> real
     \<Rightarrow> sample \<times> nat \<Rightarrow> (sample \<times> nat) option" where
  "attack_iteration cfg est rnd original_sample target msk clip_min clip_max st =
     (case st of (current_sample0, curr_iter) \<Rightarrow>
      let delta = compute_delta cfg curr_iter current_sample0 original_sample clip_min clip_max
      in case binary_search cfg est current_sample0 original_sample target (norm_cfg cfg)
                clip_min clip_max None of
           None \<Rightarrow> None
         | Some current_sample \<Rightarrow>
             (let num_eval = min (trunc (real_of_int (init_eval cfg) * sqrt (real (curr_iter + 1))))
                                 (max_eval cfg);
                  update = compute_update cfg est (noise rnd curr_iter) current_sample num_eval
                             delta target msk clip_min clip_max;
                  dist = (if norm_cfg cfg = L2 then l2_norm (vsub original_sample current_sample)
                          else max_abs_diff original_sample current_sample);
                  epsilon = 2 * dist / sqrt (real (curr_iter + 1))
              in case step_size_search cfg est current_sample update target clip_min clip_max
                        epsilon of
                   None \<Rightarrow> None
                 | Some (eps, potential_sample) \<Rightarrow>
                     Some (clip potential_sample clip_min clip_max, curr_iter + 1)))"

fun attack_loop ::
  "config \<Rightarrow> estimator \<Rightarrow> rng \<Rightarrow> sample \<Rightarrow> label \<Rightarrow> sample option \<Rightarrow> real \<Rightarrow> real
     \<Rightarrow> nat \<Rightarrow> sample \<times> nat \<Rightarrow> (sample \<times> nat) option" where
  "attack_loop cfg est rnd original_sample target msk clip_min clip_max 0 st = Some st"
| "attack_loop cfg est rnd original_sample target msk clip_min clip_max (Suc n) st =
     (case attack_iteration cfg est rnd original_sample target msk clip_min clip_max st of
        None \<Rightarrow> None
      | Some st' \<Rightarrow> attack_loop cfg est rnd original_sample target msk clip_min clip_max n st')"

text \<open>\<open>_attack\<close>: \<open>range(self.max_iter)\<close> iterations from the initial sample; the instance
  counter \<open>self.curr_iter\<close> is passed in and returned.\<close>

definition attack ::
  "config \<Rightarrow> estimator \<Rightarrow> rng \<Rightarrow> sample \<Rightarrow> sample \<Rightarrow> label \<Rightarrow> sample option \<Rightarrow> real \<Rightarrow> real
     \<Rightarrow> nat \<Rightarrow> (sample \<times> nat) option" where
  "attack cfg est rnd initial_sample original_sample target msk clip_min clip_max curr_iter =
     attack_loop cfg est rnd original_sample target msk clip_min clip_max
       (nat (max_iter cfg)) (initial_sample, curr_iter)"

section \<open>Initial-sample finder\<close>

text \<open>
  \<open>generate\<close> hands \<open>_init_sample\<close> a row of raw scores as \<open>init_pred\<close> (it never takes
  their argmax), or \<open>None\<close>; the estimator is taken to answer the array of initial
  examples as it answers a batch of samples. Comparing that row with a label is
  elementwise, and the \<open>if\<close> then asks for the truth value of the resulting array:
  defined for exactly one element, an error otherwise. \<open>None == y\<close> is false and
  \<open>None != y\<close> is true.
\<close>

definition truth_value :: "bool list \<Rightarrow> error + bool" where
  "truth_value bs = (case bs of [b] \<Rightarrow> Inr b | _ \<Rightarrow> Inl AmbiguousTruthValue)"

definition init_pred_eq :: "sample option \<Rightarrow> real list option \<Rightarrow> label \<Rightarrow> error + bool" where
  "init_pred_eq adv_init init_pred y =
     (case adv_init of None \<Rightarrow> Inr False
      | Some a \<Rightarrow> (case init_pred of None \<Rightarrow> Inr False
                   | Some scores \<Rightarrow> truth_value (map (\<lambda>v. v = real_of_int y) scores)))"

definition init_pred_neq :: "sample option \<Rightarrow> real list option \<Rightarrow> label \<Rightarrow> error + bool" where
  "init_pred_neq adv_init init_pred y_p =
     (case adv_init of None \<Rightarrow> Inr False
      | Some a \<Rightarrow> (case init_pred of None \<Rightarrow> Inr True
                   | Some scores \<Rightarrow> truth_value (map (\<lambda>v. v \<noteq> real_of_int y_p) scores)))"

definition random_img :: "rng \<Rightarrow> nat \<Rightarrow> sample \<Rightarrow> sample option \<Rightarrow> real \<Rightarrow> real \<Rightarrow> sample" where
  "random_img rnd k x msk clip_min clip_max =
     (let img = uniform_draw rnd k clip_min clip_max (length x)
      in case msk of None \<Rightarrow> img | Some m \<Rightarrow> apply_mask img x m)"

text \<open>
  The two \<open>for _ in range(self.init_size)\<close> loops, over the indices of the draws still
  to make. Besides the loop variable \<open>initial_sample\<close> they return what the loop did:
  the number of draws made and the indices of the draws handed to the projector.
\<close>

fun targeted_draws ::
  "config \<Rightarrow> estimator \<Rightarrow> rng \<Rightarrow> sample \<Rightarrow> label \<Rightarrow> sample option \<Rightarrow> real \<Rightarrow> real
     \<Rightarrow> nat list \<Rightarrow> (sample \<times> label) option \<times> nat \<times> nat list
     \<Rightarrow> ((sample \<times> label) option \<times> nat \<times> nat list) option" where
  "targeted_draws cfg est rnd x y msk clip_min clip_max [] st = Some st"
| "targeted_draws cfg est rnd x y msk clip_min clip_max (k # ks) (initial_sample, drawn, projected) =
     (let img = random_img rnd k x msk clip_min clip_max;
          random_class = predict_raw est img
      in if random_class = y then
           (case binary_search cfg est img x y L2 clip_min clip_max (Some (1 / 1000)) of
              None \<Rightarrow> None
            | Some img' \<Rightarrow>
                targeted_draws cfg est rnd x y msk clip_min clip_max ks
                  (Some (img', random_class), Suc drawn, projected @ [k]))
         else targeted_draws cfg est rnd x y msk clip_min clip_max ks
                (initial_sample, Suc drawn, projected))"

fun untargeted_draws ::
  "config \<Rightarrow> estimator \<Rightarrow> rng \<Rightarrow> sample \<Rightarrow> label \<Rightarrow> sample option \<Rightarrow> real \<Rightarrow> real
     \<Rightarrow> nat list \<Rightarrow> (sample \<times> label) option \<times> nat \<times> nat list
     \<Rightarrow> ((sample \<times> label) option \<times> nat \<times> nat list) option" where
  "untargeted_draws cfg est rnd x y_p msk clip_min clip_max [] st = Some st"
| "untargeted_draws cfg est rnd x y_p msk clip_min clip_max (k # ks) (initial_sample, drawn, projected) =
     (let img = random_img rnd k x msk clip_min clip_max;
          random_class = predict_raw est img
      in if random_class \<noteq> y_p then
           (case binary_search cfg est img x y_p L2 clip_min clip_max (Some (1 / 1000)) of
              None \<Rightarrow> None
            | Some img' \<Rightarrow> Some (Some (img', y_p), Suc drawn, projected @ [k]))
         else untargeted_draws cfg est rnd x y_p msk clip_min clip_max ks
                (initial_sample, Suc drawn, projected))"

text \<open>
  \<open>_init_sample\<close>. The outer \<open>option\<close> is \<open>None\<close> when a loop never ends, \<open>Inl\<close> is a
  raised exception, and the inner \<open>option\<close> is Python's \<open>None\<close> result. In the targeted
  branch the source returns \<open>init_pred\<close> itself as the label; it has just been found equal
  to \<open>y\<close>, which the model returns.
\<close>

definition init_sample ::
  "config \<Rightarrow> estimator \<Rightarrow> rng \<Rightarrow> sample \<Rightarrow> label \<Rightarrow> label \<Rightarrow> real list option \<Rightarrow> sample option
     \<Rightarrow> sample option \<Rightarrow> real \<Rightarrow> real \<Rightarrow> (error + (sample \<times> label) option) option" where
  "init_sample cfg est rnd x y y_p init_pred adv_init msk clip_min clip_max =
     (if targeted cfg then
        (if y = y_p then Some (Inr None)
         else case init_pred_eq adv_init init_pred y of
                Inl e \<Rightarrow> Some (Inl e)
              | Inr True \<Rightarrow> Some (Inr (map_option (\<lambda>a. (a, y)) adv_init))
              | Inr False \<Rightarrow>
                  map_option (\<lambda>r. Inr (fst r))
                    (targeted_draws cfg est rnd x y msk clip_min clip_max
                       [0..<nat (init_size cfg)] (None, 0, [])))
      else
        (case init_pred_neq adv_init init_pred y_p of
           Inl e \<Rightarrow> Some (Inl e)
         | Inr True \<Rightarrow> Some (Inr (map_option (\<lambda>a. (a, y_p)) adv_init))
         | Inr False \<Rightarrow>
             map_option (\<lambda>r. Inr (fst r))
               (untargeted_draws cfg est rnd x y_p msk clip_min clip_max
                  [0..<nat (init_size cfg)] (None, 0, []))))"

section \<open>Per-sample attack and the entry point\<close>

definition perturb ::
  "config \<Rightarrow> estimator \<Rightarrow> rng \<Rightarrow> sample \<Rightarrow> label \<Rightarrow> label \<Rightarrow> real list option \<Rightarrow> sample option
     \<Rightarrow> sample option \<Rightarrow> real \<Rightarrow> real \<Rightarrow> nat \<Rightarrow> (error + sample \<times> nat) option" where
  "perturb cfg est rnd x y y_p init_pred adv_init msk clip_min clip_max curr_iter =
     (case init_sample cfg est rnd x y y_p init_pred adv_init msk clip_min clip_max of
        None \<Rightarrow> None
      | Some (Inl e) \<Rightarrow> Some (Inl e)
      | Some (Inr None) \<Rightarrow> Some (Inr (x, curr_iter))
      | Some (Inr (Some (initial_sample, target))) \<Rightarrow>
          map_option Inr
            (attack cfg est rnd initial_sample x target msk clip_min clip_max curr_iter))"

text \<open>
  The preparation of \<open>x_adv_init\<close> in \<open>generate\<close>: with initial examples and no mask,
  \<open>mask[i]\<close> subscripts \<open>None\<close>; with both, each initial example is masked and the
  estimator's raw output on it becomes its \<open>init_pred\<close>.
\<close>

definition prepare_init ::
  "estimator \<Rightarrow> sample list \<Rightarrow> sample list option \<Rightarrow> sample list option
     \<Rightarrow> error + (real list option list \<times> sample option list)" where
  "prepare_init est x msk x_adv_init =
     (case x_adv_init of
        None \<Rightarrow> Inr (replicate (length x) None, replicate (length x) None)
      | Some xa \<Rightarrow>
          (if x = [] then Inr (map (\<lambda>a. Some (est a)) xa, map Some xa)
           else case msk of
                  None \<Rightarrow> Inl NoneNotSubscriptable
                | Some m \<Rightarrow>
                    (if length m < length x \<or> length xa < length x then Inl IndexOutOfRange
                     else let xa' = map (\<lambda>i. apply_mask (xa ! i) (x ! i) (m ! i)) [0..<length x]
                                      @ drop (length x) xa
                          in Inr (map (\<lambda>a. Some (est a)) xa', map Some xa'))))"

text \<open>The label handed to \<open>_perturb\<close>: \<open>y[ind]\<close> for a targeted attack, \<open>-1\<close> otherwise.\<close>

definition target_label :: "config \<Rightarrow> label list option \<Rightarrow> nat \<Rightarrow> error + label" where
  "target_label cfg y ind =
     (if targeted cfg then
        (case y of None \<Rightarrow> Inl NoneNotSubscriptable
         | Some ys \<Rightarrow> if ind < length ys then Inr (ys ! ind) else Inl IndexOutOfRange)
      else Inr (- 1))"

text \<open>The loop of \<open>generate\<close> over the sample indices; the state is the output array
  \<open>x_adv\<close> and the instance counter \<open>self.curr_iter\<close>, reset to \<open>start\<close> for each sample.
  Both calls of \<open>_perturb\<close> pass \<open>mask=None\<close>.\<close>

fun generate_loop ::
  "config \<Rightarrow> estimator \<Rightarrow> (nat \<Rightarrow> rng) \<Rightarrow> nat \<Rightarrow> label list option \<Rightarrow> label list
     \<Rightarrow> real list option list \<Rightarrow> sample option list \<Rightarrow> real \<Rightarrow> real
     \<Rightarrow> nat list \<Rightarrow> sample list \<times> nat \<Rightarrow> (error + sample list \<times> nat) option" where
  "generate_loop cfg est rnds start y preds init_preds x_adv_init clip_min clip_max [] st =
     Some (Inr st)"
| "generate_loop cfg est rnds start y preds init_preds x_adv_init clip_min clip_max (ind # inds)
       (x_adv, curr_iter) =
     (case target_label cfg y ind of
        Inl e \<Rightarrow> Some (Inl e)
      | Inr yv \<Rightarrow>
        (case perturb cfg est (rnds ind) (x_adv ! ind) yv (preds ! ind) (init_preds ! ind)
                (x_adv_init ! ind) None clip_min clip_max start of
           None \<Rightarrow> None
         | Some (Inl e) \<Rightarrow> Some (Inl e)
         | Some (Inr (out, curr_iter')) \<Rightarrow>
             generate_loop cfg est rnds start y preds init_preds x_adv_init clip_min clip_max
               inds (x_adv[ind := out], curr_iter')))"

text \<open>
  \<open>generate\<close> on a batch \<open>x\<close>, with the optional arguments \<open>y\<close>, \<open>mask\<close>, \<open>x_adv_init\<close>
  and \<open>resume\<close>. \<open>np.min\<close> and \<open>np.max\<close> of an array without elements raise.
\<close>

definition generate ::
  "config \<Rightarrow> estimator \<Rightarrow> (nat \<Rightarrow> rng) \<Rightarrow> nat \<Rightarrow> sample list \<Rightarrow> label list option
     \<Rightarrow> sample list option \<Rightarrow> sample list option \<Rightarrow> bool option
     \<Rightarrow> (error + sample list \<times> nat) option" where
  "generate cfg est rnds curr_iter0 x y msk x_adv_init resume =
     (let start = (if resume = Some True then curr_iter0 else 0)
      in if concat x = [] then Some (Inl ZeroSizeReduction)
         else
           (let clip_min = min_of (concat x);
                clip_max = max_of (concat x);
                preds = map (predict cfg est) x
            in case prepare_init est x msk x_adv_init of
                 Inl e \<Rightarrow> Some (Inl e)
               | Inr (init_preds, x_adv_init') \<Rightarrow>
                   (if targeted cfg \<and> y = None then Some (Inl MissingTargetLabels)
                    else generate_loop cfg est rnds start y preds init_preds x_adv_init'
                           clip_min clip_max [0..<length x] (x, curr_iter0))))"


text \<open>
  The class of the \<open>k\<close>-th draw of the initial-sample loops, and the projection of that
  draw as the specification words it for this place: the norm-2 bisection from the
  bounds \<open>(0, 1)\<close> with the fixed threshold \<open>0.001\<close>.
\<close>

definition draw_class :: "estimator \<Rightarrow> rng \<Rightarrow> sample \<Rightarrow> sample option \<Rightarrow> real \<Rightarrow> real \<Rightarrow> nat \<Rightarrow> label" where
  "draw_class est rnd x msk clip_min clip_max k =
     predict_raw est (random_img rnd k x msk clip_min clip_max)"

definition init_projection ::
  "config \<Rightarrow> estimator \<Rightarrow> rng \<Rightarrow> sample \<Rightarrow> label \<Rightarrow> sample option \<Rightarrow> real \<Rightarrow> real \<Rightarrow> nat
     \<Rightarrow> sample option" where
  "init_projection cfg est rnd x target msk clip_min clip_max k =
     (let img = random_img rnd k x msk clip_min clip_max
      in map_option (\<lambda>(lower, upper). result_spec img x upper L2)
           (while_option (\<lambda>(lower, upper). upper - lower > 1 / 1000)
              (bisect_step (\<lambda>alpha. adversarial_satisfactory cfg est (result_spec img x alpha L2)
                                      target clip_min clip_max))
              (0, 1)))"

text \<open>Every element of a sample lies within the clipping bounds.\<close>

definition in_range :: "sample \<Rightarrow> real \<Rightarrow> real \<Rightarrow> bool" where
  "in_range s lo hi = list_all (\<lambda>v. lo \<le> v \<and> v \<le> hi) s"

section \<open>Example inputs\<close>


definition threshold_oracle :: estimator where
  "threshold_oracle s = (case s of [] \<Rightarrow> [1, 0] | v # _ \<Rightarrow> if 1 / 2 \<le> v then [0, 1] else [1, 0])"

definition example_rng :: rng where
  "example_rng = \<lparr> uniform01 = (\<lambda>k j. 3 / 4), noise = (\<lambda>it i j. 1) \<rparr>"

definition example_config :: config where
  "example_config = \<lparr> targeted = False, norm_cfg = Linf, max_iter = 1, max_eval = 1,
     init_eval = 1, init_size = 2, input_shape = [1], apply_softmax = False,
     theta = 1 / 100 \<rparr>"

definition two_draw_rng :: rng where
  "two_draw_rng = \<lparr> uniform01 = (\<lambda>k j. if k = 0 then 3 / 4 else 1), noise = (\<lambda>it i j. 1) \<rparr>"

definition targeted_config :: config where
  "targeted_config = example_config \<lparr> targeted := True \<rparr>"

definition low_draw_rng :: rng where
  "low_draw_rng = \<lparr> uniform01 = (\<lambda>k j. 1 / 4), noise = (\<lambda>it i j. 1) \<rparr>"

definition low_draw_rngs :: "nat \<Rightarrow> rng" where
  "low_draw_rngs ind = low_draw_rng"

definition no_iter_targeted_config :: config where
  "no_iter_targeted_config = targeted_config \<lparr> max_iter := 0 \<rparr>"

definition example_rngs :: "nat \<Rightarrow> rng" where
  "example_rngs ind = example_rng"

definition second_feature_oracle :: estimator where
  "second_feature_oracle s = (case s of [a, b] \<Rightarrow> if b < 3 / 4 then [0, 1] else [1, 0] | _ \<Rightarrow> [1, 0])"

definition mask_rngs :: "nat \<Rightarrow> rng" where
  "mask_rngs ind = \<lparr> uniform01 = (\<lambda>k j. if j = 0 then 1 / 2 else 1 / 4), noise = (\<lambda>it i j. 1) \<rparr>"

definition mask_config :: config where
  "mask_config = \<lparr> targeted = False, norm_cfg = L2, max_iter = 0, max_eval = 1,
     init_eval = 1, init_size = 1, input_shape = [2], apply_softmax = False,
     theta = 1 / 100 \<rparr>"



section \<open>The projector is the bisection of the specification\<close>

lemma binary_search_loop_unfold:
  "binary_search_loop cfg est cur orig target nrm cmin cmax thr l u =
     (if u - l > thr then
        (case bisect_step (\<lambda>a. adversarial_satisfactory cfg est (interpolate cur orig a nrm)
                               target cmin cmax) (l, u) of
           (l', u') \<Rightarrow> binary_search_loop cfg est cur orig target nrm cmin cmax thr l' u')
      else Some u)"
  by (subst binary_search_loop.simps) (simp add: bisect_step_def Let_def add.commute)

lemma binary_search_loop_stops:
  assumes c: "c = bisect_step (\<lambda>a. adversarial_satisfactory cfg est (interpolate cur orig a nrm)
                                   target cmin cmax)"
  shows "\<not> thr < snd ((c ^^ k) (l, u)) - fst ((c ^^ k) (l, u)) \<Longrightarrow>
    (\<forall>i<k. thr < snd ((c ^^ i) (l, u)) - fst ((c ^^ i) (l, u))) \<Longrightarrow>
    binary_search_loop cfg est cur orig target nrm cmin cmax thr l u
      = Some (snd ((c ^^ k) (l, u)))"
proof (induction k arbitrary: l u)
  case 0
  then show ?case by (subst binary_search_loop_unfold) simp
next
  case (Suc k)
  obtain l' u' where c': "c (l, u) = (l', u')" by (cases "c (l, u)")
  have b0: "thr < u - l" using Suc.prems(2)[rule_format, of 0] by simp
  have shift: "(c ^^ Suc i) (l, u) = (c ^^ i) (l', u')" for i
    by (simp add: funpow_swap1 c')
  have "binary_search_loop cfg est cur orig target nrm cmin cmax thr l' u'
          = Some (snd ((c ^^ k) (l', u')))"
  proof (rule Suc.IH)
    show "\<not> thr < snd ((c ^^ k) (l', u')) - fst ((c ^^ k) (l', u'))"
      using Suc.prems(1) shift[of k] by simp
    show "\<forall>i<k. thr < snd ((c ^^ i) (l', u')) - fst ((c ^^ i) (l', u'))"
    proof (intro allI impI)
      fix i assume "i < k"
      then have "Suc i < Suc k" by simp
      from Suc.prems(2)[rule_format, OF this]
      show "thr < snd ((c ^^ i) (l', u')) - fst ((c ^^ i) (l', u'))"
        using shift[of i] by simp
    qed
  qed
  moreover have "binary_search_loop cfg est cur orig target nrm cmin cmax thr l u
      = binary_search_loop cfg est cur orig target nrm cmin cmax thr l' u'"
    using b0 c' by (subst binary_search_loop_unfold) (simp add: c)
  ultimately show ?case using shift[of k] by simp
qed

lemma binary_search_loop_Some_stops:
  assumes "binary_search_loop cfg est cur orig target nrm cmin cmax thr l u = Some r"
  shows "\<exists>k. \<not> thr < snd ((bisect_step (\<lambda>a. adversarial_satisfactory cfg est
                    (interpolate cur orig a nrm) target cmin cmax) ^^ k) (l, u))
                 - fst ((bisect_step (\<lambda>a. adversarial_satisfactory cfg est
                    (interpolate cur orig a nrm) target cmin cmax) ^^ k) (l, u))"
proof (rule binary_search_loop.raw_induct[where P = "\<lambda>cfg est cur orig target nrm cmin cmax thr l u r.
     \<exists>k. \<not> thr < snd ((bisect_step (\<lambda>a. adversarial_satisfactory cfg est
                    (interpolate cur orig a nrm) target cmin cmax) ^^ k) (l, u))
                 - fst ((bisect_step (\<lambda>a. adversarial_satisfactory cfg est
                    (interpolate cur orig a nrm) target cmin cmax) ^^ k) (l, u))",
     OF _ assms])
  fix loop :: "config \<Rightarrow> estimator \<Rightarrow> sample \<Rightarrow> sample \<Rightarrow> label \<Rightarrow> norm_order \<Rightarrow> real \<Rightarrow> real
                 \<Rightarrow> real \<Rightarrow> real \<Rightarrow> real \<Rightarrow> real option"
    and cfg est cur orig target nrm cmin cmax thr l u r
  let ?c = "bisect_step (\<lambda>a. adversarial_satisfactory cfg est (interpolate cur orig a nrm)
                              target cmin cmax)"
  assume IH: "\<And>cfg est cur orig target nrm cmin cmax thr l u r.
      loop cfg est cur orig target nrm cmin cmax thr l u = Some r \<Longrightarrow>
      \<exists>k. \<not> thr < snd ((bisect_step (\<lambda>a. adversarial_satisfactory cfg est
                    (interpolate cur orig a nrm) target cmin cmax) ^^ k) (l, u))
                 - fst ((bisect_step (\<lambda>a. adversarial_satisfactory cfg est
                    (interpolate cur orig a nrm) target cmin cmax) ^^ k) (l, u))"
  assume body: "(if thr < u - l
      then let alpha = (u + l) / 2;
               interpolated_sample = interpolate cur orig alpha nrm;
               satisfied = adversarial_satisfactory cfg est interpolated_sample target cmin cmax
           in loop cfg est cur orig target nrm cmin cmax thr
               (if \<not> satisfied then alpha else l) (if satisfied then alpha else u)
      else Some u) = Some r"
  show "\<exists>k. \<not> thr < snd ((?c ^^ k) (l, u)) - fst ((?c ^^ k) (l, u))"
  proof (cases "thr < u - l")
    case False
    then have "\<not> thr < snd ((?c ^^ 0) (l, u)) - fst ((?c ^^ 0) (l, u))" by simp
    then show ?thesis by blast
  next
    case True
    define alpha where "alpha = (u + l) / 2"
    define sat where
      "sat = adversarial_satisfactory cfg est (interpolate cur orig alpha nrm) target cmin cmax"
    define l' where "l' = (if \<not> sat then alpha else l)"
    define u' where "u' = (if sat then alpha else u)"
    have c': "?c (l, u) = (l', u')"
      by (simp add: bisect_step_def Let_def add.commute l'_def u'_def sat_def alpha_def)
    have "loop cfg est cur orig target nrm cmin cmax thr l' u' = Some r"
      using body True unfolding Let_def l'_def u'_def sat_def alpha_def by simp
    from IH[OF this] obtain k where
      "\<not> thr < snd ((?c ^^ k) (l', u')) - fst ((?c ^^ k) (l', u'))" by blast
    then have "\<not> thr < snd ((?c ^^ Suc k) (l, u)) - fst ((?c ^^ Suc k) (l, u))"
      by (simp add: funpow_swap1 c')
    then show ?thesis by blast
  qed
qed

lemma binary_search_loop_while:
  "binary_search_loop cfg est cur orig target nrm cmin cmax thr lb ub =
     map_option snd
       (while_option (\<lambda>(l, u). u - l > thr)
          (bisect_step (\<lambda>a. adversarial_satisfactory cfg est (interpolate cur orig a nrm)
                               target cmin cmax))
          (lb, ub))"
proof -
  define c where "c = bisect_step (\<lambda>a. adversarial_satisfactory cfg est
                        (interpolate cur orig a nrm) target cmin cmax)"
  define b where "b = (\<lambda>(l::real, u::real). u - l > thr)"
  have b_eq: "b s = (thr < snd s - fst s)" for s by (simp add: b_def case_prod_beta)
  show ?thesis
  proof (cases "\<exists>k. \<not> b ((c ^^ k) (lb, ub))")
    case False
    then have w: "while_option b c (lb, ub) = None" by (simp add: while_option_def)
    have "binary_search_loop cfg est cur orig target nrm cmin cmax thr lb ub = None"
    proof (cases "binary_search_loop cfg est cur orig target nrm cmin cmax thr lb ub")
      case (Some r)
      from binary_search_loop_Some_stops[OF this] obtain k where "\<not> b ((c ^^ k) (lb, ub))"
        unfolding c_def b_eq by blast
      with False show ?thesis by blast
    qed simp
    with w show ?thesis unfolding c_def b_def by simp
  next
    case True
    define k where "k = (LEAST k. \<not> b ((c ^^ k) (lb, ub)))"
    have stop: "\<not> b ((c ^^ k) (lb, ub))" unfolding k_def using True by (rule LeastI_ex)
    have before: "\<forall>i<k. b ((c ^^ i) (lb, ub))"
      unfolding k_def using not_less_Least by blast
    have w: "while_option b c (lb, ub) = Some ((c ^^ k) (lb, ub))"
      using True by (simp add: while_option_def k_def)
    have "binary_search_loop cfg est cur orig target nrm cmin cmax thr lb ub
            = Some (snd ((c ^^ k) (lb, ub)))"
      using stop before unfolding b_eq by (intro binary_search_loop_stops[OF c_def])
    with w show ?thesis unfolding c_def b_def by simp
  qed
qed

lemma interpolate_L2:
  "interpolate cur orig a L2 = map2 (\<lambda>orig cur. (1 - a) * orig + a * cur) orig cur"
  by (induction orig cur rule: list_induct2') (simp_all add: interpolate_def vadd_def scale_def)

lemma interpolate_Linf:
  "interpolate cur orig a Linf = map2 (\<lambda>orig cur. min (max cur (orig - a)) (orig + a)) orig cur"
  by (induction orig cur rule: list_induct2') (simp_all add: interpolate_def clip_box_def)

lemma interpolate_result_spec: "interpolate cur orig a nrm = result_spec cur orig a nrm"
  by (cases nrm) (simp_all add: result_spec_def interpolate_L2 interpolate_Linf)

text \<open>
  C2. With no explicit threshold, \<open>_binary_search\<close> is the bisection the specification
  describes: \<open>alpha\<close> is the midpoint of the bounds, an adversarial interpolation at
  \<open>alpha\<close> lowers the upper bound to \<open>alpha\<close> and any other raises the lower bound to
  \<open>alpha\<close>, the loop runs while the gap exceeds the threshold, and the result is the
  interpolation at the final upper bound. For norm 2 the bounds start at \<open>(0, 1)\<close> with
  threshold \<open>theta\<close>; for norm infinity the upper bound starts at the largest absolute
  coordinate difference, the threshold is \<open>min (upper * theta) theta\<close>, and the
  interpolation clips the current sample into the box of radius \<open>alpha\<close> around the
  original. Both sides are \<open>None\<close> exactly when the loop never ends.
\<close>

theorem binary_search_is_projector_spec:
  "binary_search cfg est current_sample original_sample target nrm clip_min clip_max None
     = projector_spec cfg est current_sample original_sample target nrm clip_min clip_max"
proof (cases nrm)
  case L2
  show ?thesis
    unfolding binary_search_def projector_spec_def Let_def L2
    by (simp add: binary_search_loop_while interpolate_result_spec option.map_comp comp_def
        case_prod_unfold)
next
  case Linf
  show ?thesis
    unfolding binary_search_def projector_spec_def Let_def Linf
    by (simp add: binary_search_loop_while interpolate_result_spec option.map_comp comp_def
        case_prod_unfold)
qed

section \<open>Termination and invariants of the projector\<close>

lemma bisect_step_gap:
  "snd (bisect_step adv s) - fst (bisect_step adv s) = (snd s - fst s) / 2"
  by (cases s) (simp add: bisect_step_def Let_def field_simps)

lemma bisect_steps_gap:
  "snd ((bisect_step adv ^^ k) s) - fst ((bisect_step adv ^^ k) s) = (snd s - fst s) / 2 ^ k"
  by (induction k) (simp_all add: bisect_step_gap)

lemma halving_reaches:
  fixes g thr :: real
  assumes "0 < thr"
  shows "\<exists>k. \<not> thr < g / 2 ^ k"
proof -
  obtain k where "g / thr < 2 ^ k" using real_arch_pow[of 2 "g / thr"] by auto
  then have "g < thr * 2 ^ k" using assms by (simp add: pos_divide_less_eq mult.commute)
  then have "g / 2 ^ k < thr" by (simp add: pos_divide_less_eq)
  then show ?thesis by (intro exI[of _ k]) simp
qed

lemma binary_search_loop_terminates:
  assumes "0 < thr"
  shows "\<exists>r. binary_search_loop cfg est cur orig target nrm cmin cmax thr lb ub = Some r"
proof -
  let ?c = "bisect_step (\<lambda>a. adversarial_satisfactory cfg est (interpolate cur orig a nrm) target cmin cmax)"
  let ?b = "\<lambda>(l::real, u::real). u - l > thr"
  from halving_reaches[OF assms, of "ub - lb"] obtain k where "\<not> thr < (ub - lb) / 2 ^ k" by blast
  then have "\<not> ?b ((?c ^^ k) (lb, ub))"
    by (simp add: case_prod_beta bisect_steps_gap)
  then have "\<exists>k. \<not> ?b ((?c ^^ k) (lb, ub))" by (rule exI)
  then obtain t where "while_option ?b ?c (lb, ub) = Some t"
    by (auto simp: while_option_def)
  then show ?thesis by (simp add: binary_search_loop_while)
qed



lemma fold_max_ge: "(a::real) \<le> fold max xs a"
  by (induction xs arbitrary: a) (auto intro: order_trans[OF max.cobounded2])

lemma fold_max_mem: "(v::real) \<in> set xs \<Longrightarrow> v \<le> fold max xs a"
proof (induction xs arbitrary: a)
  case (Cons x xs)
  show ?case
  proof (cases "v = x")
    case True
    have "x \<le> max x a" by simp
    also have "\<dots> \<le> fold max xs (max x a)" by (rule fold_max_ge)
    finally show ?thesis using True by simp
  next
    case False
    with Cons show ?thesis by simp
  qed
qed simp

lemma max_of_ge: "v \<in> set xs \<Longrightarrow> v \<le> max_of xs"
  by (cases xs) (auto simp: fold_max_ge fold_max_mem)

lemma max_abs_diff_nonneg: "0 \<le> max_abs_diff xs ys"
proof (cases "map abs (vsub xs ys)")
  case Nil
  then show ?thesis by (simp add: max_abs_diff_def)
next
  case (Cons v vs)
  then have "v \<in> set (map abs (vsub xs ys))" by simp
  then have "0 \<le> v" by auto
  moreover have "v \<le> max_of (map abs (vsub xs ys))" by (rule max_of_ge) (simp add: Cons)
  ultimately show ?thesis by (simp add: max_abs_diff_def)
qed






lemma in_range_Cons [simp]: "in_range (v # s) lo hi = (lo \<le> v \<and> v \<le> hi \<and> in_range s lo hi)"
  by (simp add: in_range_def)

lemma in_range_Nil [simp]: "in_range [] lo hi"
  by (simp add: in_range_def)










section \<open>Direction estimator\<close>

lemma signs_sum:
  "sum_list (map (\<lambda>b. if b then 1 else - 1 :: real) bs)
     = real (length (filter (\<lambda>b. b) bs)) - real (length (filter (\<lambda>b. \<not> b) bs))"
  by (induction bs) auto

lemma filter_split_length:
  "length (filter (\<lambda>b. b) bs) + length (filter (\<lambda>b. \<not> b) bs) = length (bs :: bool list)"
  by (induction bs) auto

lemma mean_signs_one:
  "bs \<noteq> [] \<Longrightarrow> mean (map (\<lambda>b. if b then 1 else - 1) bs) = 1 \<longleftrightarrow> list_all (\<lambda>b. b) bs"
proof -
  assume ne: "bs \<noteq> []"
  define p where "p = length (filter (\<lambda>b. b) bs)"
  define q where "q = length (filter (\<lambda>b. \<not> b) bs)"
  have n: "p + q = length bs" unfolding p_def q_def by (rule filter_split_length)
  have pos: "0 < length bs" using ne by simp
  have "mean (map (\<lambda>b. if b then 1 else - 1) bs) = (real p - real q) / real (length bs)"
    by (simp add: mean_def signs_sum p_def q_def)
  also have "\<dots> = 1 \<longleftrightarrow> real p - real q = real (length bs)"
    using pos by (simp add: divide_eq_eq)
  also have "\<dots> \<longleftrightarrow> q = 0"
  proof -
    have "real (length bs) = real p + real q" by (simp add: n[symmetric])
    then show ?thesis by auto
  qed
  also have "\<dots> \<longleftrightarrow> list_all (\<lambda>b. b) bs"
    unfolding q_def by (induction bs) auto
  finally show ?thesis .
qed


lemma mean_signs_minus_one:
  "bs \<noteq> [] \<Longrightarrow> mean (map (\<lambda>b. if b then 1 else - 1) bs) = - 1 \<longleftrightarrow> list_all (\<lambda>b. \<not> b) bs"
proof -
  assume ne: "bs \<noteq> []"
  define p where "p = length (filter (\<lambda>b. b) bs)"
  define q where "q = length (filter (\<lambda>b. \<not> b) bs)"
  have n: "p + q = length bs" unfolding p_def q_def by (rule filter_split_length)
  have pos: "0 < length bs" using ne by simp
  have "mean (map (\<lambda>b. if b then 1 else - 1) bs) = (real p - real q) / real (length bs)"
    by (simp add: mean_def signs_sum p_def q_def)
  also have "\<dots> = - 1 \<longleftrightarrow> real p - real q = - real (length bs)"
    using pos by (simp add: divide_eq_eq)
  also have "\<dots> \<longleftrightarrow> p = 0"
  proof -
    have "real (length bs) = real p + real q" by (simp add: n[symmetric])
    then show ?thesis by auto
  qed
  also have "\<dots> \<longleftrightarrow> list_all (\<lambda>b. \<not> b) bs"
    unfolding p_def by (induction bs) auto
  finally show ?thesis .
qed

lemma f_val_signs:
  "map (\<lambda>b. 2 * (if b then 1 else 0) - 1 :: real) bs = map (\<lambda>b. if b then 1 else - 1) bs"
  by (induction bs) auto

lemma map2_scale_centered:
  "map2 scale (map (\<lambda>f. f - m) fs) ps = map2 (\<lambda>s p. scale (s - m) p) fs ps"
  by (induction fs ps rule: list_induct2') simp_all

lemma applied_perturbations_probes:
  "map fst (applied_perturbations cfg draw cur num_eval delta msk cmin cmax)
     = map (\<lambda>row. clip (vadd cur (scale delta row)) cmin cmax)
         (map (\<lambda>row. map (\<lambda>v. v / sqrt (sum_list (map (\<lambda>w. w ^ 2) row))) row)
            (case msk of None \<Rightarrow> map (\<lambda>i. map (draw i) [0..<prod_list (input_shape cfg)])
                         [0..<nat num_eval]
             | Some m \<Rightarrow> map (\<lambda>row. vmul row m)
                 (map (\<lambda>i. map (draw i) [0..<prod_list (input_shape cfg)]) [0..<nat num_eval])))"
  by (cases msk) (simp_all add: applied_perturbations_def Let_def comp_def)

lemma applied_perturbations_noise:
  "map snd (applied_perturbations cfg draw cur num_eval delta msk cmin cmax)
     = map (\<lambda>e. map (\<lambda>v. v / delta) (vsub e cur))
         (map fst (applied_perturbations cfg draw cur num_eval delta msk cmin cmax))"
  by (simp add: applied_perturbations_def Let_def comp_def)

lemma compute_update_spec:
  "compute_update cfg est draw cur num_eval delta target msk cmin cmax =
     direction_spec (norm_cfg cfg)
       (map (\<lambda>probe. adversarial_satisfactory cfg est probe target cmin cmax)
          (map fst (applied_perturbations cfg draw cur num_eval delta msk cmin cmax)))
       (map snd (applied_perturbations cfg draw cur num_eval delta msk cmin cmax))"
proof -
  define probes where "probes = map fst (applied_perturbations cfg draw cur num_eval delta msk cmin cmax)"
  define noise where "noise = map (\<lambda>e. map (\<lambda>v. v / delta) (vsub e cur)) probes"
  define sat where "sat = map (\<lambda>e. adversarial_satisfactory cfg est e target cmin cmax) probes"
  define signs where "signs = map (\<lambda>b. if b then 1 else - 1 :: real) sat"
  have cu: "compute_update cfg est draw cur num_eval delta target msk cmin cmax =
     (let grad = (if mean signs = 1 then mean_axis0 noise
                  else if mean signs = - 1 then map uminus (mean_axis0 noise)
                  else mean_axis0 (map2 scale (map (\<lambda>f. f - mean signs) signs) noise))
      in if norm_cfg cfg = L2 then map (\<lambda>g. g / l2_norm grad) grad else map sgn grad)"
    unfolding compute_update_def Let_def signs_def sat_def noise_def probes_def
      applied_perturbations_probes f_val_signs[symmetric]
    by (simp add: comp_def)
  have raw: "(if mean signs = 1 then mean_axis0 noise
                  else if mean signs = - 1 then map uminus (mean_axis0 noise)
                  else mean_axis0 (map2 scale (map (\<lambda>f. f - mean signs) signs) noise))
             = raw_direction_spec sat noise"
  proof (cases "sat = []")
    case True
    then have "probes = []" by (simp add: sat_def)
    then show ?thesis
      by (simp add: raw_direction_spec_def signs_def sat_def noise_def mean_def mean_axis0_def)
  next
    case False
    then show ?thesis
      unfolding raw_direction_spec_def Let_def signs_def map2_scale_centered
      by (simp add: mean_signs_one mean_signs_minus_one del: map_map)
  qed
  have noise_eq: "noise = map snd (applied_perturbations cfg draw cur num_eval delta msk cmin cmax)"
    unfolding noise_def probes_def by (rule applied_perturbations_noise[symmetric])
  have "compute_update cfg est draw cur num_eval delta target msk cmin cmax
          = direction_spec (norm_cfg cfg) sat noise"
    unfolding cu raw direction_spec_def Let_def by (cases "norm_cfg cfg") simp_all
  then show ?thesis unfolding noise_eq sat_def probes_def .
qed


lemma sum_squares_scaled:
  "sum_list (map (\<lambda>v. v * v) (map (\<lambda>v. v / c) g)) = sum_list (map (\<lambda>v. v * v) g) / (c * c :: real)"
  by (induction g) (simp_all add: add_divide_distrib)

lemma l2_norm_normalized:
  assumes "l2_norm g \<noteq> 0"
  shows "l2_norm (map (\<lambda>v. v / l2_norm g) g) = 1"
proof -
  define S where "S = sum_list (map (\<lambda>v. v * v) g)"
  have nonneg: "0 \<le> S" unfolding S_def by (induction g) simp_all
  have c: "l2_norm g = sqrt S" by (simp add: l2_norm_def S_def)
  with assms nonneg have pos: "0 < S" by (cases "S = 0") auto
  have sq: "l2_norm g * l2_norm g = S" using nonneg by (simp add: c)
  have "sum_list (map (\<lambda>v. v * v) (map (\<lambda>v. v / l2_norm g) g)) = S / (l2_norm g * l2_norm g)"
    unfolding sum_squares_scaled S_def ..
  also have "\<dots> = 1" unfolding sq using pos by simp
  finally have "sum_list (map (\<lambda>v. v * v) (map (\<lambda>v. v / l2_norm g) g)) = 1" .
  then show ?thesis unfolding l2_norm_def by simp
qed

lemma sgn_values: "list_all (\<lambda>v. v = - 1 \<or> v = 0 \<or> v = 1) (map sgn (g :: real list))"
  by (induction g) (auto simp: sgn_real_def)

text \<open>
  C6. \<open>_compute_update\<close> is the direction estimator of the specification applied to
  the probes it evaluates: the indicators become \<open>+1\<close>/\<open>-1\<close>; when every probe is
  adversarial the raw direction is the mean of the applied perturbations, when none is
  it is the negated mean, and otherwise it is the mean of the perturbations weighted by
  the centred indicators. For norm 2 the result is the raw direction divided by its
  norm, which has norm 1 unless the raw direction is zero; for norm infinity it is the
  elementwise sign.
\<close>

theorem compute_update_direction:
  "compute_update cfg est draw current_sample num_eval delta target msk clip_min clip_max =
     direction_spec (norm_cfg cfg)
       (map (\<lambda>probe. adversarial_satisfactory cfg est probe target clip_min clip_max)
          (map fst (applied_perturbations cfg draw current_sample num_eval delta msk
                      clip_min clip_max)))
       (map snd (applied_perturbations cfg draw current_sample num_eval delta msk
                   clip_min clip_max))
   \<and> (l2_norm (raw_direction_spec indicators perturbations) \<noteq> 0
      \<longrightarrow> l2_norm (direction_spec L2 indicators perturbations) = 1)
   \<and> direction_spec Linf indicators perturbations
       = map sgn (raw_direction_spec indicators perturbations)
   \<and> list_all (\<lambda>v. v = - 1 \<or> v = 0 \<or> v = 1) (direction_spec Linf indicators perturbations)"
  by (simp add: compute_update_spec direction_spec_def Let_def l2_norm_normalized sgn_values)

theorem compute_update_direction_witness:
  "compute_update example_config threshold_oracle (noise example_rng 0) [1 / 2] 1 (1 / 10) 0 None 0 1
     = [1]
   \<and> l2_norm (raw_direction_spec [True] [[1]]) \<noteq> 0
   \<and> l2_norm (direction_spec L2 [True] [[1]]) = 1"
proof -
  have raw: "raw_direction_spec [True] [[1]] = [1]"
    by (simp add: raw_direction_spec_def mean_axis0_def)
  have n: "l2_norm (raw_direction_spec [True] [[1]]) \<noteq> 0"
    by (simp add: raw l2_norm_def)
  have probes: "applied_perturbations example_config (noise example_rng 0) [1 / 2] 1 (1 / 10) None 0 1
      = [([3 / 5], [1])]"
    by (simp add: applied_perturbations_def example_config_def example_rng_def Let_def
        vadd_def vsub_def scale_def clip_def)
  have sat: "adversarial_satisfactory example_config threshold_oracle [3 / 5] 0 0 1"
    by (simp add: adversarial_satisfactory_def predict_def example_config_def threshold_oracle_def
        argmax_def clip_def)
  have nrm: "norm_cfg example_config = Linf" by (simp add: example_config_def)
  from compute_update_direction
         [where cfg = example_config and est = threshold_oracle and draw = "noise example_rng 0"
            and current_sample = "[1 / 2]" and num_eval = 1 and delta = "1 / 10" and target = 0
            and msk = None and clip_min = 0 and clip_max = 1
            and indicators = "[True]" and perturbations = "[[1]]"]
  show ?thesis
    using n by (simp add: probes sat nrm raw)
qed

section \<open>Step-size search\<close>









section \<open>Initial-sample finder\<close>

lemma binary_search_L2_explicit:
  "binary_search cfg est img x target L2 cmin cmax (Some thr) =
     map_option (\<lambda>(lower, upper). result_spec img x upper L2)
       (while_option (\<lambda>(lower, upper). upper - lower > thr)
          (bisect_step (\<lambda>alpha. adversarial_satisfactory cfg est (result_spec img x alpha L2)
                                  target cmin cmax))
          (0, 1))"
  unfolding binary_search_def Let_def
  by (simp add: binary_search_loop_while interpolate_result_spec option.map_comp comp_def
      case_prod_unfold)

lemma init_projection_eq:
  "binary_search cfg est (random_img rnd k x msk cmin cmax) x target L2 cmin cmax (Some (1 / 1000))
     = init_projection cfg est rnd x target msk cmin cmax k"
  by (simp add: init_projection_def binary_search_L2_explicit Let_def)

lemma binary_search_explicit_threshold_terminates:
  assumes "0 < thr"
  shows "\<exists>r. binary_search cfg est cur orig target nrm cmin cmax (Some thr) = Some r"
proof -
  obtain ub where "binary_search_loop cfg est cur orig target nrm cmin cmax thr 0
      (if nrm = L2 then 1 else max_abs_diff orig cur) = Some ub"
    using binary_search_loop_terminates[OF assms] by blast
  then show ?thesis by (cases "nrm = L2") (simp_all add: binary_search_def Let_def)
qed

lemma init_projection_terminates:
  "\<exists>r. init_projection cfg est rnd x target msk cmin cmax k = Some r"
  unfolding init_projection_eq[symmetric]
  by (rule binary_search_explicit_threshold_terminates) simp

lemma untargeted_draws_char:
  "untargeted_draws cfg est rnd x y_p msk cmin cmax ks (acc, d, p) =
     (case find (\<lambda>k. draw_class est rnd x msk cmin cmax k \<noteq> y_p) ks of
        None \<Rightarrow> Some (acc, d + length ks, p)
      | Some k \<Rightarrow>
          map_option (\<lambda>r. (Some (r, y_p),
                            d + Suc (length (takeWhile (\<lambda>k. draw_class est rnd x msk cmin cmax k = y_p) ks)),
                            p @ [k]))
            (init_projection cfg est rnd x y_p msk cmin cmax k))"
proof (induction ks arbitrary: d)
  case Nil
  show ?case by simp
next
  case (Cons k ks)
  show ?case
  proof (cases "draw_class est rnd x msk cmin cmax k \<noteq> y_p")
    case True
    then show ?thesis
      by (simp add: Let_def draw_class_def[symmetric] init_projection_eq split: option.splits)
  next
    case False
    then show ?thesis
      by (simp add: Let_def draw_class_def[symmetric] Cons.IH split: option.splits)
  qed
qed

lemma targeted_draws_char:
  "targeted_draws cfg est rnd x y msk cmin cmax ks (acc, d, p) =
     (case filter (\<lambda>k. draw_class est rnd x msk cmin cmax k = y) ks of
        [] \<Rightarrow> Some (acc, d + length ks, p)
      | h # hs \<Rightarrow>
          map_option (\<lambda>r. (Some (r, y), d + length ks, p @ h # hs))
            (init_projection cfg est rnd x y msk cmin cmax (last (h # hs))))"
proof (induction ks arbitrary: acc d p)
  case Nil
  show ?case by simp
next
  case (Cons k ks)
  show ?case
  proof (cases "draw_class est rnd x msk cmin cmax k = y")
    case False
    then show ?thesis
      by (simp add: Let_def draw_class_def[symmetric] Cons.IH split: list.splits)
  next
    case True
    obtain r where r: "init_projection cfg est rnd x y msk cmin cmax k = Some r"
      using init_projection_terminates by blast
    have step: "targeted_draws cfg est rnd x y msk cmin cmax (k # ks) (acc, d, p)
        = targeted_draws cfg est rnd x y msk cmin cmax ks (Some (r, y), Suc d, p @ [k])"
      using True r by (simp add: Let_def draw_class_def[symmetric] init_projection_eq)
    show ?thesis
    proof (cases "filter (\<lambda>k. draw_class est rnd x msk cmin cmax k = y) ks")
      case Nil
      then show ?thesis using True r
        by (simp add: step Cons.IH del: targeted_draws.simps)
    next
      case (Cons h hs)
      then show ?thesis using True
        by (simp add: step Cons.IH del: targeted_draws.simps)
    qed
  qed
qed

lemma init_sample_untargeted_draws:
  "\<not> targeted cfg \<Longrightarrow>
   init_sample cfg est rnd x y y_p init_pred None msk cmin cmax =
     (case find (\<lambda>k. draw_class est rnd x msk cmin cmax k \<noteq> y_p) [0..<nat (init_size cfg)] of
        None \<Rightarrow> Some (Inr None)
      | Some k \<Rightarrow> map_option (\<lambda>r. Inr (Some (r, y_p)))
                    (init_projection cfg est rnd x y_p msk cmin cmax k))"
  by (simp add: init_sample_def init_pred_neq_def untargeted_draws_char option.map_comp comp_def
      split: option.splits)

lemma init_sample_targeted_draws:
  "targeted cfg \<Longrightarrow> y \<noteq> y_p \<Longrightarrow>
   init_sample cfg est rnd x y y_p init_pred None msk cmin cmax =
     (case filter (\<lambda>k. draw_class est rnd x msk cmin cmax k = y) [0..<nat (init_size cfg)] of
        [] \<Rightarrow> Some (Inr None)
      | h # hs \<Rightarrow> map_option (\<lambda>r. Inr (Some (r, y)))
                    (init_projection cfg est rnd x y msk cmin cmax (last (h # hs))))"
  by (simp add: init_sample_def init_pred_eq_def targeted_draws_char option.map_comp comp_def
      split: list.splits)

text \<open>
  C5. With no caller-supplied initial example, the untargeted loop returns the
  projection of the first draw whose class differs from the original's label and makes
  no further draw, while the targeted loop makes all \<open>init_size\<close> draws, hands every
  draw of the target class to the projector, and keeps the projection of the last one.
\<close>

theorem init_sample_first_hit_and_last_hit:
  "(\<not> targeted cfg \<longrightarrow>
      init_sample cfg est rnd x y y_p init_pred None msk cmin cmax =
        (case find (\<lambda>k. draw_class est rnd x msk cmin cmax k \<noteq> y_p) [0..<nat (init_size cfg)] of
           None \<Rightarrow> Some (Inr None)
         | Some k \<Rightarrow> map_option (\<lambda>r. Inr (Some (r, y_p)))
                       (init_projection cfg est rnd x y_p msk cmin cmax k)))
   \<and> untargeted_draws cfg est rnd x y_p msk cmin cmax ks (None, 0, []) =
        (case find (\<lambda>k. draw_class est rnd x msk cmin cmax k \<noteq> y_p) ks of
           None \<Rightarrow> Some (None, length ks, [])
         | Some k \<Rightarrow>
             map_option (\<lambda>r. (Some (r, y_p),
                 Suc (length (takeWhile (\<lambda>k. draw_class est rnd x msk cmin cmax k = y_p) ks)),
                 [k]))
               (init_projection cfg est rnd x y_p msk cmin cmax k))
   \<and> (targeted cfg \<and> y \<noteq> y_p \<longrightarrow>
      init_sample cfg est rnd x y y_p init_pred None msk cmin cmax =
        (case filter (\<lambda>k. draw_class est rnd x msk cmin cmax k = y) [0..<nat (init_size cfg)] of
           [] \<Rightarrow> Some (Inr None)
         | h # hs \<Rightarrow> map_option (\<lambda>r. Inr (Some (r, y)))
                       (init_projection cfg est rnd x y msk cmin cmax (last (h # hs)))))
   \<and> targeted_draws cfg est rnd x y msk cmin cmax ks (None, 0, []) =
        (case filter (\<lambda>k. draw_class est rnd x msk cmin cmax k = y) ks of
           [] \<Rightarrow> Some (None, length ks, [])
         | h # hs \<Rightarrow>
             map_option (\<lambda>r. (Some (r, y), length ks, h # hs))
               (init_projection cfg est rnd x y msk cmin cmax (last (h # hs))))"
  by (simp add: init_sample_untargeted_draws init_sample_targeted_draws
      untargeted_draws_char targeted_draws_char del: untargeted_draws.simps targeted_draws.simps
      split: option.split list.split)

lemma example_untargeted_init:
  "init_sample example_config threshold_oracle two_draw_rng [0] (- 1) 0 None None None 0 1
     = Some (Inr (Some ([2049 / 4096], 0)))"
  by (simp add: init_sample_def init_pred_neq_def upt_rec
      random_img_def uniform_draw_def two_draw_rng_def predict_raw_def
      binary_search_def binary_search_loop.simps Let_def interpolate_def vadd_def scale_def
      adversarial_satisfactory_def predict_def example_config_def threshold_oracle_def argmax_def clip_def)

lemma example_targeted_init:
  "init_sample targeted_config threshold_oracle two_draw_rng [0] 1 0 None None None 0 1
     = Some (Inr (Some ([1 / 2], 1)))"
  by (simp add: init_sample_def init_pred_eq_def upt_rec targeted_config_def
      random_img_def uniform_draw_def two_draw_rng_def predict_raw_def
      binary_search_def binary_search_loop.simps Let_def interpolate_def vadd_def scale_def
      adversarial_satisfactory_def predict_def example_config_def threshold_oracle_def argmax_def clip_def)

theorem init_sample_first_hit_and_last_hit_witness:
  "init_sample example_config threshold_oracle two_draw_rng [0] (- 1) 0 None None None 0 1
     = Some (Inr (Some ([2049 / 4096], 0)))
   \<and> find (\<lambda>k. draw_class threshold_oracle two_draw_rng [0] None 0 1 k \<noteq> 0) [0..<2] = Some 0
   \<and> init_projection example_config threshold_oracle two_draw_rng [0] 0 None 0 1 0
       = Some [2049 / 4096]
   \<and> init_sample targeted_config threshold_oracle two_draw_rng [0] 1 0 None None None 0 1
     = Some (Inr (Some ([1 / 2], 1)))
   \<and> filter (\<lambda>k. draw_class threshold_oracle two_draw_rng [0] None 0 1 k = 1) [0..<2] = [0, 1]
   \<and> init_projection targeted_config threshold_oracle two_draw_rng [0] 1 None 0 1 1
       = Some [1 / 2]"
proof -
  have f: "find (\<lambda>k. draw_class threshold_oracle two_draw_rng [0] None 0 1 k \<noteq> 0) [0..<2] = Some 0"
    by (simp add: upt_rec draw_class_def random_img_def uniform_draw_def two_draw_rng_def
        predict_raw_def threshold_oracle_def argmax_def)
  have g: "filter (\<lambda>k. draw_class threshold_oracle two_draw_rng [0] None 0 1 k = 1) [0..<2] = [0, 1]"
    by (simp add: upt_rec draw_class_def random_img_def uniform_draw_def two_draw_rng_def
        predict_raw_def threshold_oracle_def argmax_def)
  have n: "nat (init_size example_config) = 2" "nat (init_size targeted_config) = 2"
    "\<not> targeted example_config" "targeted targeted_config"
    by (simp_all add: example_config_def targeted_config_def)
  from init_sample_first_hit_and_last_hit
         [of example_config threshold_oracle two_draw_rng "[0]" "- 1" 0 None None 0 1 "[]"]
  have u: "init_sample example_config threshold_oracle two_draw_rng [0] (- 1) 0 None None None 0 1
     = map_option (\<lambda>r. Inr (Some (r, 0)))
         (init_projection example_config threshold_oracle two_draw_rng [0] 0 None 0 1 0)"
    by (simp add: n f del: untargeted_draws.simps targeted_draws.simps)
  from init_sample_first_hit_and_last_hit
         [of targeted_config threshold_oracle two_draw_rng "[0]" 1 0 None None 0 1 "[]"]
  have t: "init_sample targeted_config threshold_oracle two_draw_rng [0] 1 0 None None None 0 1
     = map_option (\<lambda>r. Inr (Some (r, 1)))
         (init_projection targeted_config threshold_oracle two_draw_rng [0] 1 None 0 1 1)"
    by (simp add: n g del: untargeted_draws.simps targeted_draws.simps)
  have pu: "init_projection example_config threshold_oracle two_draw_rng [0] 0 None 0 1 0
      = Some [2049 / 4096]"
    using u[unfolded example_untargeted_init, symmetric] by auto
  have pt: "init_projection targeted_config threshold_oracle two_draw_rng [0] 1 None 0 1 1
      = Some [1 / 2]"
    using t[unfolded example_targeted_init, symmetric] by auto
  from pu pt f g show ?thesis
    by (simp add: example_untargeted_init example_targeted_init)
qed

lemma init_projection_config:
  "init_projection (cfg\<lparr>norm_cfg := n, theta := t\<rparr>) est rnd x target msk cmin cmax k
     = init_projection cfg est rnd x target msk cmin cmax k"
  by (simp add: init_projection_def adversarial_satisfactory_def predict_def)

lemma untargeted_draws_config:
  "untargeted_draws (cfg\<lparr>norm_cfg := n, theta := t\<rparr>) est rnd x y_p msk cmin cmax ks st
     = untargeted_draws cfg est rnd x y_p msk cmin cmax ks st"
proof -
  obtain acc d p where st: "st = (acc, d, p)" by (cases st)
  show ?thesis unfolding st untargeted_draws_char init_projection_config ..
qed

lemma targeted_draws_config:
  "targeted_draws (cfg\<lparr>norm_cfg := n, theta := t\<rparr>) est rnd x y msk cmin cmax ks st
     = targeted_draws cfg est rnd x y msk cmin cmax ks st"
proof -
  obtain acc d p where st: "st = (acc, d, p)" by (cases st)
  show ?thesis unfolding st targeted_draws_char init_projection_config ..
qed

lemma init_sample_config:
  "init_sample (cfg\<lparr>norm_cfg := n, theta := t\<rparr>) est rnd x y y_p init_pred adv_init msk cmin cmax
     = init_sample cfg est rnd x y y_p init_pred adv_init msk cmin cmax"
  unfolding init_sample_def untargeted_draws_config targeted_draws_config
  by (simp split: sum.split bool.split)

lemma init_sample_draw_result:
  assumes "init_sample cfg est rnd x y y_p init_pred None msk cmin cmax = Some (Inr (Some (s, target)))"
  shows "\<exists>k<nat (init_size cfg). init_projection cfg est rnd x target msk cmin cmax k = Some s
            \<and> target = (if targeted cfg then y else y_p)
            \<and> (predict_raw est (random_img rnd k x msk cmin cmax) = target) = targeted cfg"
proof (cases "targeted cfg")
  case False
  let ?H = "\<lambda>k. draw_class est rnd x msk cmin cmax k \<noteq> y_p"
  note eq = assms[unfolded init_sample_untargeted_draws[OF False]]
  show ?thesis
  proof (cases "find ?H [0..<nat (init_size cfg)]")
    case None
    with eq show ?thesis by simp
  next
    case (Some k)
    with eq have p: "init_projection cfg est rnd x y_p msk cmin cmax k = Some s" and t: "target = y_p"
      by auto
    from Some have "k \<in> set [0..<nat (init_size cfg)]" "?H k"
      by (auto simp: find_Some_iff)
    with p t False show ?thesis by (auto simp: draw_class_def)
  qed
next
  case True
  let ?H = "\<lambda>k. draw_class est rnd x msk cmin cmax k = y"
  from assms True have ne: "y \<noteq> y_p" by (auto simp: init_sample_def)
  note eq = assms[unfolded init_sample_targeted_draws[OF True ne]]
  show ?thesis
  proof (cases "filter ?H [0..<nat (init_size cfg)]")
    case Nil
    with eq show ?thesis by simp
  next
    case (Cons h hs)
    with eq have p: "init_projection cfg est rnd x y msk cmin cmax (last (h # hs)) = Some s"
      and t: "target = y"
      by auto
    have "last (h # hs) \<in> set (filter ?H [0..<nat (init_size cfg)])"
      unfolding Cons by (rule last_in_set) simp
    then have "last (h # hs) < nat (init_size cfg)" "?H (last (h # hs))" by auto
    with p t True show ?thesis by (auto simp: draw_class_def)
  qed
qed

text \<open>
  C10. The initial-sample finder does not depend on the configured norm or \<open>theta\<close>:
  changing both leaves its result unchanged, every sample it finds by drawing is the
  norm-2 bisection with threshold \<open>0.001\<close> of one of the draws, and that bisection is
  the call of \<open>_binary_search\<close> the two loops make.
\<close>

theorem init_projection_fixed_norm_and_threshold:
  "init_sample (cfg\<lparr>norm_cfg := n, theta := t\<rparr>) est rnd x y y_p init_pred adv_init msk cmin cmax
     = init_sample cfg est rnd x y y_p init_pred adv_init msk cmin cmax
   \<and> (init_sample cfg est rnd x y y_p init_pred None msk cmin cmax = Some (Inr (Some (s, target)))
      \<longrightarrow> (\<exists>k<nat (init_size cfg).
             init_projection cfg est rnd x target msk cmin cmax k = Some s))
   \<and> binary_search cfg est (random_img rnd k x msk cmin cmax) x target L2 cmin cmax
         (Some (1 / 1000))
       = init_projection cfg est rnd x target msk cmin cmax k"
proof (intro conjI impI)
  assume "init_sample cfg est rnd x y y_p init_pred None msk cmin cmax = Some (Inr (Some (s, target)))"
  from init_sample_draw_result[OF this]
  show "\<exists>k<nat (init_size cfg). init_projection cfg est rnd x target msk cmin cmax k = Some s"
    by blast
qed (simp_all add: init_sample_config init_projection_eq)

theorem init_projection_fixed_norm_and_threshold_witness:
  "init_sample (example_config\<lparr>norm_cfg := L2, theta := 1 / 2\<rparr>) threshold_oracle two_draw_rng
       [0] (- 1) 0 None None None 0 1
     = Some (Inr (Some ([2049 / 4096], 0)))
   \<and> (\<exists>k<nat (init_size example_config).
        init_projection example_config threshold_oracle two_draw_rng [0] 0 None 0 1 k
          = Some [2049 / 4096])"
  using init_projection_fixed_norm_and_threshold
          [where cfg = example_config and n = L2 and t = "1 / 2" and est = threshold_oracle
             and rnd = two_draw_rng and x = "[0]" and y = "- 1" and y_p = 0 and init_pred = None
             and adv_init = None and msk = None and cmin = 0 and cmax = 1
             and s = "[2049 / 4096]" and target = 0 and k = 0]
  by (simp add: example_untargeted_init)

section \<open>The entry point\<close>

lemma perturb_init_none:
  "init_sample cfg est rnd x y y_p init_pred adv_init msk cmin cmax = Some (Inr None) \<Longrightarrow>
   perturb cfg est rnd x y y_p init_pred adv_init msk cmin cmax ci = Some (Inr (x, ci))"
  by (simp add: perturb_def)

lemma init_sample_target_is_label:
  "targeted cfg \<Longrightarrow> y = y_p \<Longrightarrow>
   init_sample cfg est rnd x y y_p init_pred adv_init msk cmin cmax = Some (Inr None)"
  by (simp add: init_sample_def)

lemma generate_loop_char:
  assumes "generate_loop cfg est rnds start y preds ips xas cmin cmax inds (xa, ci) = Some (Inr (out, ci'))"
    and "distinct inds" and "\<forall>i\<in>set inds. i < length xa"
  shows "length out = length xa
       \<and> (\<forall>j. j \<notin> set inds \<longrightarrow> out ! j = xa ! j)
       \<and> (\<forall>j\<in>set inds. \<exists>yv c. target_label cfg y j = Inr yv
             \<and> perturb cfg est (rnds j) (xa ! j) yv (preds ! j) (ips ! j) (xas ! j) None
                  cmin cmax start = Some (Inr (out ! j, c)))"
  using assms
proof (induction inds arbitrary: xa ci)
  case Nil
  then show ?case by simp
next
  case (Cons ind inds)
  from Cons.prems(1) obtain yv where yv: "target_label cfg y ind = Inr yv"
    by (cases "target_label cfg y ind") auto
  from Cons.prems(1) yv obtain o' c where
    p: "perturb cfg est (rnds ind) (xa ! ind) yv (preds ! ind) (ips ! ind) (xas ! ind) None
          cmin cmax start = Some (Inr (o', c))"
    and rest: "generate_loop cfg est rnds start y preds ips xas cmin cmax inds (xa[ind := o'], c)
          = Some (Inr (out, ci'))"
    by (auto split: option.splits sum.splits)
  from Cons.prems have d: "distinct inds" "ind \<notin> set inds"
    and b: "\<forall>i\<in>set inds. i < length (xa[ind := o'])" "ind < length xa"
    by auto
  from Cons.IH[OF rest d(1) b(1)] have
    len: "length out = length xa"
    and keep: "\<forall>j. j \<notin> set inds \<longrightarrow> out ! j = xa[ind := o'] ! j"
    and others: "\<forall>j\<in>set inds. \<exists>yv c. target_label cfg y j = Inr yv
             \<and> perturb cfg est (rnds j) (xa[ind := o'] ! j) yv (preds ! j) (ips ! j) (xas ! j) None
                  cmin cmax start = Some (Inr (out ! j, c))"
    by auto
  have here: "out ! ind = o'" using keep d(2) b(2) by simp
  show ?case
  proof (intro conjI allI impI ballI)
    show "length out = length xa" by (rule len)
  next
    fix j assume "j \<notin> set (ind # inds)"
    then show "out ! j = xa ! j" using keep by simp
  next
    fix j assume j: "j \<in> set (ind # inds)"
    show "\<exists>yv c. target_label cfg y j = Inr yv
             \<and> perturb cfg est (rnds j) (xa ! j) yv (preds ! j) (ips ! j) (xas ! j) None
                  cmin cmax start = Some (Inr (out ! j, c))"
    proof (cases "j = ind")
      case True
      with yv p here show ?thesis by auto
    next
      case False
      with j have "j \<in> set inds" by simp
      with others False show ?thesis by (metis nth_list_update_neq)
    qed
  qed
qed

lemma generate_Some:
  assumes "generate cfg est rnds cinit x y msk x_adv_init resume = Some (Inr (out, ci'))"
  obtains ips xas where
    "concat x \<noteq> []"
    "prepare_init est x msk x_adv_init = Inr (ips, xas)"
    "generate_loop cfg est rnds (if resume = Some True then cinit else 0) y (map (predict cfg est) x)
       ips xas (min_of (concat x)) (max_of (concat x)) [0..<length x] (x, cinit) = Some (Inr (out, ci'))"
  using assms unfolding generate_def Let_def
  by (auto split: if_splits sum.splits prod.splits)

lemma generate_loop_targeted_noop:
  assumes t: "targeted cfg"
    and inds: "\<forall>i\<in>set inds. i < length xs"
  shows "generate_loop cfg est rnds start (Some (map (predict cfg est) xs)) (map (predict cfg est) xs)
           ips xas cmin cmax inds (xs, ci)
         = Some (Inr (xs, if inds = [] then ci else start))"
  using inds
proof (induction inds arbitrary: ci)
  case Nil
  show ?case by simp
next
  case (Cons ind inds)
  then have lt: "ind < length xs" and rest: "\<forall>i\<in>set inds. i < length xs" by auto
  have tl: "target_label cfg (Some (map (predict cfg est) xs)) ind = Inr (predict cfg est (xs ! ind))"
    using t lt by (simp add: target_label_def)
  have p: "perturb cfg est (rnds ind) (xs ! ind) (predict cfg est (xs ! ind))
             (map (predict cfg est) xs ! ind) (ips ! ind) (xas ! ind) None cmin cmax start
           = Some (Inr (xs ! ind, start))"
    using lt by (intro perturb_init_none init_sample_target_is_label t) simp
  show ?case
    using Cons.IH[OF rest, of start] by (simp add: tl p)
qed

lemma generate_noop_index:
  assumes g: "generate cfg est rnds cinit xs ys m x_adv_init resume = Some (Inr (out, ci'))"
    and pi: "prepare_init est xs m x_adv_init = Inr (ips, xas)"
    and tl: "target_label cfg ys ind = Inr yv" and lt: "ind < length xs"
    and init: "init_sample cfg est (rnds ind) (xs ! ind) yv (predict cfg est (xs ! ind))
              (ips ! ind) (xas ! ind) None (min_of (concat xs)) (max_of (concat xs))
            = Some (Inr None)"
  shows "length out = length xs \<and> out ! ind = xs ! ind"
proof -
  define start where "start = (if resume = Some True then cinit else 0)"
  from g pi have loop: "generate_loop cfg est rnds start ys (map (predict cfg est) xs)
       ips xas (min_of (concat xs)) (max_of (concat xs)) [0..<length xs] (xs, cinit) = Some (Inr (out, ci'))"
    unfolding start_def by (elim generate_Some) simp
  have char: "length out = length xs
       \<and> (\<forall>j. j \<notin> set [0..<length xs] \<longrightarrow> out ! j = xs ! j)
       \<and> (\<forall>j\<in>set [0..<length xs]. \<exists>yv c. target_label cfg ys j = Inr yv
             \<and> perturb cfg est (rnds j) (xs ! j) yv (map (predict cfg est) xs ! j) (ips ! j) (xas ! j) None
                  (min_of (concat xs)) (max_of (concat xs)) start = Some (Inr (out ! j, c)))"
    by (rule generate_loop_char[OF loop]) simp_all
  from lt have ind: "ind \<in> set [0..<length xs]"
    and nth: "map (predict cfg est) xs ! ind = predict cfg est (xs ! ind)"
    by simp_all
  from char ind obtain yv' c where
    "target_label cfg ys ind = Inr yv'"
    "perturb cfg est (rnds ind) (xs ! ind) yv' (map (predict cfg est) xs ! ind) (ips ! ind) (xas ! ind)
       None (min_of (concat xs)) (max_of (concat xs)) start = Some (Inr (out ! ind, c))"
    by blast
  with tl nth have
    "perturb cfg est (rnds ind) (xs ! ind) yv (predict cfg est (xs ! ind)) (ips ! ind) (xas ! ind) None
       (min_of (concat xs)) (max_of (concat xs)) start = Some (Inr (out ! ind, c))"
    by simp
  moreover have "perturb cfg est (rnds ind) (xs ! ind) yv (predict cfg est (xs ! ind)) (ips ! ind)
       (xas ! ind) None (min_of (concat xs)) (max_of (concat xs)) start = Some (Inr (xs ! ind, start))"
    using init by (rule perturb_init_none)
  ultimately show ?thesis using char by simp
qed

lemma generate_targeted_all_noop:
  assumes "targeted cfg" "concat xs \<noteq> []"
  shows "generate cfg est rnds cinit xs (Some (map (predict cfg est) xs)) m None resume
           = Some (Inr (xs, if resume = Some True then cinit else 0))"
proof -
  from assms have ne: "[0..<length xs] \<noteq> []" by auto
  show ?thesis
    using assms ne
    by (simp add: generate_def Let_def prepare_init_def generate_loop_targeted_noop)
qed

text \<open>
  C4. When \<open>_init_sample\<close> returns \<open>None\<close>, \<open>_perturb\<close> returns its input sample unchanged
  and raises nothing; a targeted attack whose target is the predicted label of the
  original is such a failure. In a batch, \<open>generate\<close> leaves that sample as it was and goes
  on with the other samples: whenever it returns, the output at that index is the input,
  and a targeted batch in which every target is the predicted label comes back
  unchanged.
\<close>

theorem no_op_on_initialization_failure:
  "(init_sample cfg est rnd x y y_p init_pred adv_init msk cmin cmax = Some (Inr None)
      \<longrightarrow> perturb cfg est rnd x y y_p init_pred adv_init msk cmin cmax ci = Some (Inr (x, ci)))
   \<and> (targeted cfg \<and> y = y_p
      \<longrightarrow> init_sample cfg est rnd x y y_p init_pred adv_init msk cmin cmax = Some (Inr None))
   \<and> (generate cfg est rnds cinit xs ys m x_adv_init resume = Some (Inr (out, ci'))
        \<and> prepare_init est xs m x_adv_init = Inr (ips, xas)
        \<and> target_label cfg ys ind = Inr yv \<and> ind < length xs
        \<and> init_sample cfg est (rnds ind) (xs ! ind) yv (predict cfg est (xs ! ind))
              (ips ! ind) (xas ! ind) None (min_of (concat xs)) (max_of (concat xs))
            = Some (Inr None)
      \<longrightarrow> length out = length xs \<and> out ! ind = xs ! ind)
   \<and> (targeted cfg \<and> concat xs \<noteq> []
      \<longrightarrow> generate cfg est rnds cinit xs (Some (map (predict cfg est) xs)) m None resume
           = Some (Inr (xs, if resume = Some True then cinit else 0)))"
  using perturb_init_none[of cfg est rnd x y y_p init_pred adv_init msk cmin cmax ci]
    init_sample_target_is_label[of cfg y y_p est rnd x init_pred adv_init msk cmin cmax]
    generate_noop_index[of cfg est rnds cinit xs ys m x_adv_init resume out ci' ips xas ind yv]
    generate_targeted_all_noop[of cfg xs est rnds cinit m resume]
  by blast

lemma example_generate_noop_then_attack:
  "generate no_iter_targeted_config threshold_oracle low_draw_rngs 0 [[0], [1]]
      (Some [0, 0]) None None None
     = Some (Inr ([[0], [2047 / 4096]], 0))"
  by (simp add: generate_def prepare_init_def target_label_def perturb_def attack_def
      no_iter_targeted_config_def targeted_config_def
      init_sample_def init_pred_eq_def upt_rec
      random_img_def uniform_draw_def low_draw_rng_def low_draw_rngs_def predict_raw_def
      binary_search_def binary_search_loop.simps Let_def interpolate_def vadd_def scale_def
      adversarial_satisfactory_def predict_def example_config_def threshold_oracle_def argmax_def clip_def)

theorem no_op_on_initialization_failure_witness:
  "generate no_iter_targeted_config threshold_oracle low_draw_rngs 0 [[0], [1]]
      (Some [0, 0]) None None None
     = Some (Inr ([[0], [2047 / 4096]], 0))
   \<and> init_sample no_iter_targeted_config threshold_oracle low_draw_rng [0] 0 0 None None None 0 1
     = Some (Inr None)
   \<and> perturb no_iter_targeted_config threshold_oracle low_draw_rng [0] 0 0 None None None 0 1 0
     = Some (Inr ([0], 0))
   \<and> [[0], [2047 / 4096]] ! 0 = [[0 :: real], [1]] ! 0"
proof -
  have cfg: "targeted no_iter_targeted_config"
    by (simp add: no_iter_targeted_config_def targeted_config_def)
  have init: "init_sample no_iter_targeted_config threshold_oracle low_draw_rng [0] 0 0 None None None 0 1
     = Some (Inr None)"
    using no_op_on_initialization_failure
      [where cfg = no_iter_targeted_config and y = 0 and y_p = 0 and est = threshold_oracle
         and rnd = low_draw_rng and x = "[0]" and init_pred = None and adv_init = None
         and msk = None and cmin = 0 and cmax = 1]
      cfg by simp
  have pert: "perturb no_iter_targeted_config threshold_oracle low_draw_rng [0] 0 0 None None None 0 1 0
     = Some (Inr ([0], 0))"
    using no_op_on_initialization_failure
      [where cfg = no_iter_targeted_config and y = 0 and y_p = 0 and est = threshold_oracle
         and rnd = low_draw_rng and x = "[0]" and init_pred = None and adv_init = None
         and msk = None and cmin = 0 and cmax = 1 and ci = 0]
      init by simp
  have rn: "low_draw_rngs 0 = low_draw_rng" by (simp add: low_draw_rngs_def)
  have pre: "prepare_init threshold_oracle [[0], [1]] None None = Inr ([None, None], [None, None])"
    by (simp add: prepare_init_def numeral_2_eq_2)
  have tl: "target_label no_iter_targeted_config (Some [0, 0]) 0 = Inr 0"
    by (simp add: target_label_def cfg)
  have args: "predict no_iter_targeted_config threshold_oracle ([[0], [1]] ! 0) = 0"
    "min_of (concat [[0], [1]]) = 0" "max_of (concat [[0], [1]]) = 1"
    by (simp_all add: predict_def threshold_oracle_def argmax_def no_iter_targeted_config_def
        targeted_config_def example_config_def)
  have "[[0], [2047 / 4096]] ! 0 = [[0 :: real], [1]] ! 0"
    using no_op_on_initialization_failure
      [where cfg = no_iter_targeted_config and est = threshold_oracle and rnds = low_draw_rngs
         and cinit = 0 and xs = "[[0], [1]]" and ys = "Some [0, 0]" and m = None
         and x_adv_init = None and resume = None and out = "[[0], [2047 / 4096]]" and ci' = 0
         and ips = "[None, None]" and xas = "[None, None]" and ind = 0 and yv = 0]
      example_generate_noop_then_attack pre tl args init rn
    by simp
  with init pert show ?thesis by (simp add: example_generate_noop_then_attack)
qed

lemma generate_init_without_mask:
  "generate cfg est rnds cinit x y None (Some xa) resume
     = Some (Inl (if concat x = [] then ZeroSizeReduction else NoneNotSubscriptable))"
proof (cases "concat x = []")
  case True
  then show ?thesis by (simp add: generate_def)
next
  case False
  then have "x \<noteq> []" by auto
  with False show ?thesis by (simp add: generate_def prepare_init_def Let_def)
qed

text \<open>
  C9. For every call of \<open>generate\<close> on a batch with at least one element in
  which initial adversarial examples are given and the mask is absent, the preparation
  of the initial examples subscripts the \<open>None\<close> mask and \<open>generate\<close> fails with that
  error; on a batch without elements \<open>generate\<close> fails earlier, in the minimum of the
  batch.
\<close>

theorem generate_subscripts_missing_mask:
  "(concat x \<noteq> [] \<longrightarrow>
      prepare_init est x None (Some xa) = Inl NoneNotSubscriptable
      \<and> generate cfg est rnds cinit x y None (Some xa) resume = Some (Inl NoneNotSubscriptable))
   \<and> (concat x = [] \<longrightarrow>
      generate cfg est rnds cinit x y None (Some xa) resume = Some (Inl ZeroSizeReduction))"
proof (intro conjI impI)
  assume ne: "concat x \<noteq> []"
  then have "x \<noteq> []" by auto
  then show "prepare_init est x None (Some xa) = Inl NoneNotSubscriptable"
    by (simp add: prepare_init_def)
  from ne show "generate cfg est rnds cinit x y None (Some xa) resume = Some (Inl NoneNotSubscriptable)"
    by (simp add: generate_init_without_mask)
next
  assume "concat x = []"
  then show "generate cfg est rnds cinit x y None (Some xa) resume = Some (Inl ZeroSizeReduction)"
    by (simp add: generate_init_without_mask)
qed

theorem generate_subscripts_missing_mask_witness:
  "generate example_config threshold_oracle example_rngs 0 [[0], [1]] None None
      (Some [[1], [1]]) None = Some (Inl NoneNotSubscriptable)
   \<and> prepare_init threshold_oracle [[0], [1]] None (Some [[1], [1]]) = Inl NoneNotSubscriptable"
  using generate_subscripts_missing_mask
     [where x = "[[0], [1]]" and est = threshold_oracle and xa = "[[1], [1]]"
        and cfg = example_config and rnds = example_rngs and cinit = 0 and y = None
        and resume = None]
  by simp

text \<open>
  On the empty batch the missing mask is never subscripted: the preparation of the
  initial examples alone returns normally, and \<open>generate\<close> has failed before it.
\<close>

theorem generate_empty_batch_fails_before_mask:
  "generate example_config threshold_oracle example_rngs 0 [] None None (Some []) None
     = Some (Inl ZeroSizeReduction)
   \<and> prepare_init threshold_oracle [] None (Some []) = Inr ([], [])"
  by (simp add: generate_def prepare_init_def)

lemma generate_ignores_mask:
  "generate cfg est rnds cinit x y (Some m) None resume = generate cfg est rnds cinit x y None None resume"
  by (simp add: generate_def prepare_init_def)

text \<open>
  C3. \<open>generate\<close> hands \<open>mask=None\<close> to \<open>_perturb\<close>, so a mask given without initial
  examples changes nothing, and coordinates whose mask is 0 are perturbed: for the
  two-element input \<open>[0, 1]\<close> with mask \<open>[1, 0]\<close> the second coordinate of the output is
  \<open>1535/2048\<close>, not the original's \<open>1\<close>.
\<close>

theorem generate_mask_not_applied:
  "generate mask_config second_feature_oracle mask_rngs 0 [[0, 1]] None (Some [[1, 0]]) None None
     = Some (Inr ([[171 / 1024, 1535 / 2048]], 0))"
  by (simp add: generate_def prepare_init_def target_label_def perturb_def attack_def
      mask_config_def mask_rngs_def second_feature_oracle_def
      init_sample_def init_pred_neq_def upt_rec
      random_img_def uniform_draw_def predict_raw_def
      binary_search_def binary_search_loop.simps Let_def interpolate_def vadd_def scale_def
      adversarial_satisfactory_def predict_def argmax_def clip_def)

section \<open>The attack driver\<close>




lemma in_range_nth: "in_range s lo hi \<longleftrightarrow> (\<forall>v\<in>set s. lo \<le> v \<and> v \<le> hi)"
  by (simp add: in_range_def list_all_iff)

























section \<open>Validated configurations and the bounds of a batch\<close>

text \<open>
  A constructed configuration for a non-empty input shape has a positive \<open>theta\<close>, and
  then the projection that opens each driver iteration always returns, so the step-size
  loop is the only loop of the attack that may not end. The clipping bounds \<open>generate\<close>
  takes from the batch are ordered and enclose every sample of the batch.
\<close>

lemma hop_skip_jump_theta_pos:
  assumes "hop_skip_jump softmax_flag shape targeted_flag nrm iterations evals first_evals trials = Inr cfg"
    and "0 < prod_list shape"
  shows "0 < theta cfg"
  using assms by (auto simp: hop_skip_jump_def Let_def split: sum.splits if_splits)

lemma binary_search_default_terminates:
  assumes "0 < theta cfg"
  shows "\<exists>r. binary_search cfg est cur orig target nrm cmin cmax None = Some r"
proof (cases "nrm = L2")
  case True
  obtain ub where "binary_search_loop cfg est cur orig target nrm cmin cmax (theta cfg) 0 1 = Some ub"
    using binary_search_loop_terminates[OF assms] by blast
  with True show ?thesis by (simp add: binary_search_def Let_def)
next
  case False
  define ub0 where "ub0 = max_abs_diff orig cur"
  have nonneg: "0 \<le> ub0" unfolding ub0_def by (rule max_abs_diff_nonneg)
  have "\<exists>ub. binary_search_loop cfg est cur orig target nrm cmin cmax
          (min (ub0 * theta cfg) (theta cfg)) 0 ub0 = Some ub"
  proof (cases "ub0 = 0")
    case True
    have "min (ub0 * theta cfg) (theta cfg) = 0" using True assms by simp
    then show ?thesis unfolding True by (subst binary_search_loop.simps) simp
  next
    case nz: False
    with nonneg assms have "0 < min (ub0 * theta cfg) (theta cfg)" by simp
    then show ?thesis by (rule binary_search_loop_terminates)
  qed
  with False show ?thesis by (auto simp: binary_search_def Let_def ub0_def)
qed

lemma fold_min_le: "fold min xs (a::real) \<le> a"
  by (induction xs arbitrary: a) (auto intro: order_trans[OF _ min.cobounded2])

lemma fold_min_mem: "(v::real) \<in> set xs \<Longrightarrow> fold min xs a \<le> v"
proof (induction xs arbitrary: a)
  case (Cons x xs)
  show ?case
  proof (cases "v = x")
    case True
    have "fold min xs (min x a) \<le> min x a" by (rule fold_min_le)
    also have "\<dots> \<le> x" by simp
    finally show ?thesis using True by simp
  next
    case False
    with Cons show ?thesis by simp
  qed
qed simp

lemma min_of_le: "v \<in> set xs \<Longrightarrow> min_of xs \<le> v"
  by (cases xs) (auto simp: fold_min_le fold_min_mem)

lemma batch_sample_in_range:
  assumes "i < length x"
  shows "in_range (x ! i) (min_of (concat x)) (max_of (concat x))"
proof -
  have "v \<in> set (concat x)" if "v \<in> set (x ! i)" for v
    using that assms by (auto intro: nth_mem)
  then show ?thesis by (auto simp: in_range_nth min_of_le max_of_ge)
qed

lemma batch_bounds_ordered: "concat x \<noteq> [] \<Longrightarrow> min_of (concat x) \<le> max_of (concat x)"
proof -
  assume "concat x \<noteq> []"
  then obtain v where v: "v \<in> set (concat x)" by (cases "concat x") auto
  have "min_of (concat x) \<le> v" using v by (rule min_of_le)
  also have "v \<le> max_of (concat x)" using v by (rule max_of_ge)
  finally show ?thesis .
qed

end
